theory Spec2Isabelle
  imports Complex_Main "HOL-Library.AList" "HOL-Library.Sublist"
begin

section \<open>The OSMnx tutorial notebook\<close>

text \<open>
  The repository is one Jupyter notebook, \<^verbatim>\<open>L8_osmnx-basics.ipynb\<close>. Its code cells are
  short sequences of calls into osmnx, networkx, geopandas and pandas, joined by a few
  Python expressions of the notebook's own: a boolean-mask filter, a deep copy followed
  by two unpacking loops, a \<^verbatim>\<open>max\<close> over the items of a dictionary and two list
  comprehensions.

  The embedding keeps that shape. The Python kernel is a record of the notebook's global
  variables together with the heap of dictionary objects. A cell is a computation that
  takes the kernel state and returns the new state with either a value or the exception
  that was raised. What the libraries compute is not in the repository, so each library
  function is a parameter (a field of the record \<open>env\<close>) that returns an exception or a
  result, and every call is written to a list of records kept in the kernel state.
\<close>

subsection \<open>Exceptions\<close>

datatype exn =
    ValueError
  | KeyError
  | NameError
  | TypeError
  | AttributeError
  | RuntimeError
  | RecursionError
  | SystemError
  | LibraryError string

subsection \<open>The builtin \<^verbatim>\<open>max\<close> with a key function\<close>

text \<open>
  \<^verbatim>\<open>max(iterable, key=f)\<close> raises ValueError on an empty iterable. Otherwise it keeps the
  first item and replaces it by a later item only when that item's key is strictly
  greater, so among several maximal items the first one in iteration order is returned.
  The keys are centrality scores, floats that are never NaN; they are compared as the
  real numbers they denote.
\<close>

fun max_loop :: "('a \<Rightarrow> real) \<Rightarrow> 'a \<Rightarrow> 'a list \<Rightarrow> 'a" where
  "max_loop key maxitem [] = maxitem"
| "max_loop key maxitem (item # rest) =
     (if key item > key maxitem then max_loop key item rest
      else max_loop key maxitem rest)"

definition py_max :: "('a \<Rightarrow> real) \<Rightarrow> 'a list \<Rightarrow> exn + 'a" where
  "py_max key xs = (case xs of [] \<Rightarrow> Inl ValueError | x # rest \<Rightarrow> Inr (max_loop key x rest))"

subsection \<open>Street-network graphs\<close>

text \<open>
  A networkx graph keeps its nodes in a dictionary from node identifier to attribute
  dictionary; iterating over \<^verbatim>\<open>G.nodes\<close> yields the identifiers in insertion order. OSM
  node identifiers are integers. An edge of the multigraph is \<open>(u, v, key, data)\<close>; the
  simple directed graph returned by \<^verbatim>\<open>ox.get_digraph\<close> has no edge keys.
\<close>

type_synonym node = int

type_synonym geometry = "(real \<times> real) list"

datatype attr = AFloat real | AInt int | AStr string | ABool bool | AGeom geometry

type_synonym attrs = "(string \<times> attr) list"

record multigraph =
  nodes :: "(node \<times> attrs) list"
  edges :: "(node \<times> node \<times> nat \<times> attrs) list"

record digraph =
  di_nodes :: "(node \<times> attrs) list"
  di_edges :: "(node \<times> node \<times> attrs) list"

definition node_attr :: "multigraph \<Rightarrow> node \<Rightarrow> string \<Rightarrow> attr option" where
  "node_attr G n name = (case map_of (nodes G) n of None \<Rightarrow> None | Some d \<Rightarrow> map_of d name)"

text \<open>
  Modelled from the spec: \<^verbatim>\<open>networkx.set_node_attributes\<close> is called by the notebook but
  its code is not part of the repository. The spec says that the centrality mapping is
  attached (written) back onto the graph as a node attribute: every node of the graph
  that has an entry in the mapping gets the attribute \<open>name\<close> set to its entry; nothing
  else of the graph changes. The call mutates the graph object in place; the model
  returns the updated graph.
\<close>

definition set_node_attributes :: "multigraph \<Rightarrow> (node \<times> real) list \<Rightarrow> string \<Rightarrow> multigraph" where
  "set_node_attributes G vals name =
     G\<lparr>nodes := map (\<lambda>(n, d). case map_of vals n of
                                  None \<Rightarrow> (n, d)
                                | Some v \<Rightarrow> (n, AList.update name (AFloat v) d))
                     (nodes G)\<rparr>"

subsection \<open>The boundary table\<close>

text \<open>
  \<^verbatim>\<open>gpd.read_file\<close> returns a GeoDataFrame: rows in order, each with its index label. The
  notebook reads the columns \<^verbatim>\<open>N03_004\<close> (the district name, which may be missing in a
  row) and \<^verbatim>\<open>geometry\<close>; the remaining columns are carried along.
\<close>

record boundary_row =
  N03_004 :: "string option"
  geometry :: geometry
  other_columns :: "(string \<times> string) list"

type_synonym frame = "(nat \<times> boundary_row) list"

text \<open>The district name \<^verbatim>\<open>"\<close>Chiyoda-ku\<^verbatim>\<open>"\<close> of the source, four CJK characters, as UTF-8 bytes.\<close>

definition district_name :: string where
  "district_name =
     [CHR 0xE5, CHR 0x8D, CHR 0x83, CHR 0xE4, CHR 0xBB, CHR 0xA3,
      CHR 0xE7, CHR 0x94, CHR 0xB0, CHR 0xE5, CHR 0x8C, CHR 0xBA]"

text \<open>
  \<^verbatim>\<open>df.N03_004 == s\<close> is the boolean column that is True in the rows whose \<^verbatim>\<open>N03_004\<close> is
  \<open>s\<close> (a missing value compares unequal), and \<^verbatim>\<open>df[mask]\<close> keeps the rows, in order and
  with their labels, where the mask is True.
\<close>

definition column_eq :: "frame \<Rightarrow> string \<Rightarrow> bool list" where
  "column_eq df s = map (\<lambda>(label, row). N03_004 row = Some s) df"

definition select_mask :: "frame \<Rightarrow> bool list \<Rightarrow> frame" where
  "select_mask df keep = map fst (filter snd (zip df keep))"

text \<open>\<^verbatim>\<open>df['geometry'][label]\<close> looks a row up by its index label and raises KeyError without one.\<close>

definition geometry_at :: "frame \<Rightarrow> nat \<Rightarrow> exn + geometry" where
  "geometry_at df label = (case map_of df label of None \<Rightarrow> Inl KeyError | Some row \<Rightarrow> Inr (geometry row))"

subsection \<open>Python dictionaries on the heap\<close>

text \<open>
  Dictionaries are mutable objects, so they live in a heap: a list of dictionaries, the
  address of an object being its position. A dictionary is the list of its items in
  insertion order. Numbers, strings and None are immutable and are values. A reference
  to an address outside the heap cannot arise in Python; the operations below answer
  SystemError there.
\<close>

type_synonym addr = nat

datatype key = KInt int | KStr string

datatype pyval = VNone | VBool bool | VInt int | VFloat real | VStr string | VRef addr

type_synonym pydict = "(key \<times> pyval) list"

type_synonym store = "pydict list"

text \<open>\<^verbatim>\<open>x[k]\<close>: KeyError without the key, TypeError when \<open>x\<close> is not a dictionary.\<close>

definition subscript :: "pyval \<Rightarrow> key \<Rightarrow> store \<Rightarrow> (exn + pyval) \<times> store" where
  "subscript x k h =
     (case x of
        VRef a \<Rightarrow>
          (if a < length h
           then (case map_of (h ! a) k of None \<Rightarrow> (Inl KeyError, h) | Some v \<Rightarrow> (Inr v, h))
           else (Inl SystemError, h))
      | _ \<Rightarrow> (Inl TypeError, h))"

text \<open>\<^verbatim>\<open>x[k] = v\<close>: replaces the value of an existing key in place, appends a new key.\<close>

definition setitem :: "pyval \<Rightarrow> key \<Rightarrow> pyval \<Rightarrow> store \<Rightarrow> (exn + unit) \<times> store" where
  "setitem x k v h =
     (case x of
        VRef a \<Rightarrow>
          (if a < length h then (Inr (), h[a := AList.update k v (h ! a)])
           else (Inl SystemError, h))
      | _ \<Rightarrow> (Inl TypeError, h))"

text \<open>\<^verbatim>\<open>del x[k]\<close>: KeyError without the key.\<close>

definition delitem :: "pyval \<Rightarrow> key \<Rightarrow> store \<Rightarrow> (exn + unit) \<times> store" where
  "delitem x k h =
     (case x of
        VRef a \<Rightarrow>
          (if a < length h
           then (case map_of (h ! a) k of
                   None \<Rightarrow> (Inl KeyError, h)
                 | Some v \<Rightarrow> (Inr (), h[a := AList.delete k (h ! a)]))
           else (Inl SystemError, h))
      | _ \<Rightarrow> (Inl TypeError, h))"

text \<open>
  \<^verbatim>\<open>copy.deepcopy\<close>. An immutable value is its own copy. For a dictionary \<open>x\<close> a new
  empty dictionary \<open>y\<close> is allocated and entered in the memo under \<open>x\<close> before the items
  of \<open>x\<close> are copied into it one by one, so an object reached twice, or through a cycle,
  is copied once. The first argument bounds the nesting depth: Python raises
  RecursionError when the interpreter's recursion limit is reached.
\<close>

fun deepcopy :: "nat \<Rightarrow> pyval \<Rightarrow> (addr \<times> addr) list \<Rightarrow> store
                   \<Rightarrow> (exn + pyval) \<times> (addr \<times> addr) list \<times> store"
and deepcopy_items :: "nat \<Rightarrow> addr \<Rightarrow> pydict \<Rightarrow> (addr \<times> addr) list \<Rightarrow> store
                   \<Rightarrow> (exn + unit) \<times> (addr \<times> addr) list \<times> store" where
  "deepcopy depth (VRef x) memo h =
     (case map_of memo x of
        Some y \<Rightarrow> (Inr (VRef y), memo, h)
      | None \<Rightarrow>
          (case depth of
             0 \<Rightarrow> (Inl RecursionError, memo, h)
           | Suc d \<Rightarrow>
               (if x < length h
                then (case deepcopy_items d (length h) (h ! x) ((x, length h) # memo) (h @ [[]]) of
                        (Inl e, memo', h') \<Rightarrow> (Inl e, memo', h')
                      | (Inr u, memo', h') \<Rightarrow> (Inr (VRef (length h)), memo', h'))
                else (Inl SystemError, memo, h))))"
| "deepcopy depth VNone memo h = (Inr VNone, memo, h)"
| "deepcopy depth (VBool b) memo h = (Inr (VBool b), memo, h)"
| "deepcopy depth (VInt i) memo h = (Inr (VInt i), memo, h)"
| "deepcopy depth (VFloat r) memo h = (Inr (VFloat r), memo, h)"
| "deepcopy depth (VStr s) memo h = (Inr (VStr s), memo, h)"
| "deepcopy_items depth y [] memo h = (Inr (), memo, h)"
| "deepcopy_items depth y ((k, v) # rest) memo h =
     (case deepcopy depth v memo h of
        (Inl e, memo', h') \<Rightarrow> (Inl e, memo', h')
      | (Inr v', memo', h') \<Rightarrow>
          deepcopy_items depth y rest memo' (h'[y := AList.update k v' (h' ! y)]))"

definition py_deepcopy :: "nat \<Rightarrow> pyval \<Rightarrow> store \<Rightarrow> (exn + pyval) \<times> store" where
  "py_deepcopy limit x h = (case deepcopy limit x [] h of (r, memo, h') \<Rightarrow> (r, h'))"

text \<open>\<^verbatim>\<open>str(i)\<close> for an integer, and \<^verbatim>\<open>"{}suffix".format(k)\<close> for a dictionary key.\<close>

function str_nat :: "nat \<Rightarrow> string" where
  "str_nat n = (if n < 10 then [''0123456789'' ! n]
                else str_nat (n div 10) @ [''0123456789'' ! (n mod 10)])"
  by pat_completeness auto
termination
  by (relation "measure id") auto

definition str_int :: "int \<Rightarrow> string" where
  "str_int i = (if i < 0 then CHR ''-'' # str_nat (nat (- i)) else str_nat (nat i))"

definition format_key :: "key \<Rightarrow> string \<Rightarrow> string" where
  "format_key k sfx = (case k of KInt i \<Rightarrow> str_int i @ sfx | KStr s \<Rightarrow> s @ sfx)"

text \<open>
  The loop \<^verbatim>\<open>for k, v in inner.items(): target["{}suffix".format(k)] = v\<close>. The iterator
  remembers the size \<open>n\<close> of \<open>inner\<close> when it is created and reads the dictionary itself
  at every step: it raises RuntimeError when the size has changed, stops when the
  position has reached the end, and otherwise yields the item at the position.
\<close>

function unpack_loop :: "string \<Rightarrow> pyval \<Rightarrow> addr \<Rightarrow> nat \<Rightarrow> nat \<Rightarrow> store \<Rightarrow> (exn + unit) \<times> store" where
  "unpack_loop sfx target inner n pos h =
     (if inner < length h
      then (if length (h ! inner) \<noteq> n then (Inl RuntimeError, h)
            else if n \<le> pos then (Inr (), h)
            else (case h ! inner ! pos of
                    (k, v) \<Rightarrow>
                      (case setitem target (KStr (format_key k sfx)) v h of
                         (Inl e, h') \<Rightarrow> (Inl e, h')
                       | (Inr u, h') \<Rightarrow> unpack_loop sfx target inner n (Suc pos) h')))
      else (Inl SystemError, h))"
  by pat_completeness auto
termination
  by (relation "measure (\<lambda>(sfx, target, inner, n, pos, h). n - pos)") auto

text \<open>\<^verbatim>\<open>x.items()\<close> followed by the loop; a value that is no dictionary has no \<^verbatim>\<open>items\<close>.\<close>

definition unpack_items :: "string \<Rightarrow> pyval \<Rightarrow> pyval \<Rightarrow> store \<Rightarrow> (exn + unit) \<times> store" where
  "unpack_items sfx target x h =
     (case x of
        VRef inner \<Rightarrow>
          (if inner < length h then unpack_loop sfx target inner (length (h ! inner)) 0 h
           else (Inl SystemError, h))
      | _ \<Rightarrow> (Inl AttributeError, h))"

subsection \<open>The library interface\<close>

text \<open>
  The keyword arguments of \<^verbatim>\<open>ox.plot_graph\<close> that the notebook passes; an argument that
  is not passed is None. A node colour is one colour name, a list of names or the colour
  series returned by \<^verbatim>\<open>ox.plot.get_node_colors_by_attr\<close>; a node size is one number or
  a list. Figures, axes, maps, series and tables are owned by the libraries and the
  notebook never looks into them: they are values of the type parameter \<open>'o\<close>.
\<close>

datatype 'o color_arg = ColorStr string | ColorList "string list" | ColorSeries 'o

datatype size_arg = SizeOne int | SizeList "int list"

record 'o plot_opts =
  node_color :: "'o color_arg option"
  node_size :: "size_arg option"
  node_zorder :: "int option"
  bgcolor :: "string option"
  edge_linewidth :: "real option"
  edge_color :: "string option"
  show' :: "bool option"
  save :: "bool option"
  close' :: "bool option"
  filepath :: "string option"

definition no_opts :: "'o plot_opts" where
  "no_opts = \<lparr>node_color = None, node_size = None, node_zorder = None, bgcolor = None,
               edge_linewidth = None, edge_color = None, show' = None, save = None,
               close' = None, filepath = None\<rparr>"

text \<open>
  A request is one call of a library function with the arguments the notebook gave. The
  last constructor stands for an operation of the interpreter itself (a name lookup, a
  subscript, a builtin); such an operation is recorded only when it raises.
\<close>

datatype 'o request =
    Import string
  | GraphFromPoint "real \<times> real" int string
  | GraphFromPolygon geometry
  | GraphFromPlace string
  | PlotGraph multigraph "'o plot_opts"
  | PlotGraphFolium multigraph string int string
  | ReadFile string
  | FramePlot frame
  | BasicStats multigraph
  | PdSeries pyval "string option"
  | PdDataFrame 'o
  | Round 'o int
  | GetNodeColorsByAttr multigraph string string
  | GetDigraph multigraph
  | BetweennessCentrality digraph string
  | SetNodeAttributes multigraph "(node \<times> real) list" string
  | SaveGraphGeopackage multigraph string
  | SaveGraphShapefile multigraph string
  | Interpreter

record 'o event =
  ev_cell :: nat
  ev_request :: "'o request"
  ev_raised :: "exn option"

text \<open>
  The environment of the notebook: what each library function answers, and the
  interpreter's recursion limit. \<^verbatim>\<open>ox.basic_stats\<close> builds its result dictionary on the
  heap; \<^verbatim>\<open>pd.Series\<close> reads the dictionary it is given.
\<close>

record 'o env =
  import_module :: "string \<Rightarrow> exn + unit"
  graph_from_point :: "real \<times> real \<Rightarrow> int \<Rightarrow> string \<Rightarrow> exn + multigraph"
  graph_from_polygon :: "geometry \<Rightarrow> exn + multigraph"
  graph_from_place :: "string \<Rightarrow> exn + multigraph"
  plot_graph :: "multigraph \<Rightarrow> 'o plot_opts \<Rightarrow> exn + 'o \<times> 'o"
  plot_graph_folium :: "multigraph \<Rightarrow> string \<Rightarrow> int \<Rightarrow> string \<Rightarrow> exn + 'o"
  read_file :: "string \<Rightarrow> exn + frame"
  frame_plot :: "frame \<Rightarrow> exn + 'o"
  basic_stats :: "multigraph \<Rightarrow> store \<Rightarrow> (exn + pyval) \<times> store"
  pd_Series :: "store \<Rightarrow> pyval \<Rightarrow> string option \<Rightarrow> exn + 'o"
  pd_DataFrame :: "'o \<Rightarrow> exn + 'o"
  round_frame :: "'o \<Rightarrow> int \<Rightarrow> exn + 'o"
  get_node_colors_by_attr :: "multigraph \<Rightarrow> string \<Rightarrow> string \<Rightarrow> exn + 'o"
  get_digraph :: "multigraph \<Rightarrow> exn + digraph"
  betweenness_centrality :: "digraph \<Rightarrow> string \<Rightarrow> exn + (node \<times> real) list"
  save_graph_geopackage :: "multigraph \<Rightarrow> string \<Rightarrow> exn + unit"
  save_graph_shapefile :: "multigraph \<Rightarrow> string \<Rightarrow> exn + unit"
  recursion_limit :: nat

subsection \<open>The kernel state\<close>

text \<open>
  The global variables of the notebook (None while unbound), the heap, the library
  requests made and the exceptions raised so far, and the number of the cell that is
  running. Each graph variable is bound to an
  object of its own, so graphs are kept by value. The variables \<^verbatim>\<open>k\<close>, \<^verbatim>\<open>count\<close> and
  \<^verbatim>\<open>proportion\<close> of the two \<^verbatim>\<open>for\<close> loops stay bound after the loops; no cell reads them
  and the state does not keep them.
\<close>

record 'o kernel =
  hk_graph :: "multigraph option"
  BOUNDARY_URL :: "string option"
  tokyo_pre_boundary :: "frame option"
  chiyoda :: "frame option"
  chiyoda_graph :: "multigraph option"
  chiyoda_folium :: "'o option"
  ty_graph :: "multigraph option"
  stats :: "pyval option"
  stats_unpack :: "pyval option"
  nc_street_count :: "'o option"
  fig :: "'o option"
  ax :: "'o option"
  hk_graph_di :: "digraph option"
  bc :: "(node \<times> real) list option"
  max_node :: "node option"
  max_bc :: "real option"
  nc :: "'o color_arg option"
  ns :: "int list option"
  heap :: store
  calls :: "'o event list"
  cur_cell :: nat

definition fresh_kernel :: "'o kernel" where
  "fresh_kernel =
     \<lparr>hk_graph = None, BOUNDARY_URL = None, tokyo_pre_boundary = None, chiyoda = None,
      chiyoda_graph = None, chiyoda_folium = None, ty_graph = None, stats = None,
      stats_unpack = None, nc_street_count = None, fig = None, ax = None,
      hk_graph_di = None, bc = None, max_node = None, max_bc = None, nc = None, ns = None,
      heap = [], calls = [], cur_cell = 0\<rparr>"

subsection \<open>Computations\<close>

text \<open>
  A computation runs on the kernel state and returns the new state with its value, or
  with the exception it raised. There is no operation that takes an exception back:
  the notebook has no \<^verbatim>\<open>try\<close> statement.
\<close>

type_synonym ('o, 'a) py = "'o kernel \<Rightarrow> (exn + 'a) \<times> 'o kernel"

definition return_py :: "'a \<Rightarrow> ('o, 'a) py" where
  "return_py x = (\<lambda>st. (Inr x, st))"

definition bind_py :: "('o, 'a) py \<Rightarrow> ('a \<Rightarrow> ('o, 'b) py) \<Rightarrow> ('o, 'b) py" where
  "bind_py m f = (\<lambda>st. case m st of (Inl e, st') \<Rightarrow> (Inl e, st') | (Inr x, st') \<Rightarrow> f x st')"

definition then_py :: "('o, 'a) py \<Rightarrow> ('o, 'b) py \<Rightarrow> ('o, 'b) py" where
  "then_py m n = bind_py m (\<lambda>x. n)"

text \<open>The outcome of an operation of the interpreter; an exception is recorded.\<close>

definition raised :: "exn + 'a \<Rightarrow> exn option" where
  "raised r = (case r of Inl e \<Rightarrow> Some e | Inr x \<Rightarrow> None)"

definition record_raise :: "exn + 'a \<Rightarrow> 'o kernel \<Rightarrow> 'o kernel" where
  "record_raise r st =
     (case r of
        Inl e \<Rightarrow> st\<lparr>calls := calls st @
                     [\<lparr>ev_cell = cur_cell st, ev_request = Interpreter, ev_raised = Some e\<rparr>]\<rparr>
      | Inr x \<Rightarrow> st)"

definition of_result :: "exn + 'a \<Rightarrow> ('o, 'a) py" where
  "of_result r = (\<lambda>st. (r, record_raise r st))"

text \<open>Reading a global variable raises NameError while it is unbound.\<close>

definition read_var :: "('o kernel \<Rightarrow> 'a option) \<Rightarrow> ('o, 'a) py" where
  "read_var var = (\<lambda>st. of_result (case var st of None \<Rightarrow> Inl NameError | Some x \<Rightarrow> Inr x) st)"

definition assign :: "('o kernel \<Rightarrow> 'o kernel) \<Rightarrow> ('o, unit) py" where
  "assign upd = (\<lambda>st. (Inr (), upd st))"

definition heap_op :: "(store \<Rightarrow> (exn + 'a) \<times> store) \<Rightarrow> ('o, 'a) py" where
  "heap_op f = (\<lambda>st. case f (heap st) of (r, h') \<Rightarrow> of_result r (st\<lparr>heap := h'\<rparr>))"

text \<open>A library call: the request is recorded with its outcome, which is then the
  outcome of the call expression.\<close>

definition lib_call :: "'o request \<Rightarrow> (exn + 'a) \<Rightarrow> ('o, 'a) py" where
  "lib_call rq r =
     (\<lambda>st. (r, st\<lparr>calls := calls st @ [\<lparr>ev_cell = cur_cell st, ev_request = rq, ev_raised = raised r\<rparr>]\<rparr>))"

definition py_import :: "'o env \<Rightarrow> string \<Rightarrow> ('o, unit) py" where
  "py_import E name = lib_call (Import name) (import_module E name)"

definition ox_graph_from_point :: "'o env \<Rightarrow> real \<times> real \<Rightarrow> int \<Rightarrow> string \<Rightarrow> ('o, multigraph) py" where
  "ox_graph_from_point E center_point distance network_type =
     lib_call (GraphFromPoint center_point distance network_type)
              (graph_from_point E center_point distance network_type)"

definition ox_graph_from_polygon :: "'o env \<Rightarrow> geometry \<Rightarrow> ('o, multigraph) py" where
  "ox_graph_from_polygon E polygon = lib_call (GraphFromPolygon polygon) (graph_from_polygon E polygon)"

definition ox_graph_from_place :: "'o env \<Rightarrow> string \<Rightarrow> ('o, multigraph) py" where
  "ox_graph_from_place E query = lib_call (GraphFromPlace query) (graph_from_place E query)"

definition ox_plot_graph :: "'o env \<Rightarrow> multigraph \<Rightarrow> 'o plot_opts \<Rightarrow> ('o, 'o \<times> 'o) py" where
  "ox_plot_graph E G opts = lib_call (PlotGraph G opts) (plot_graph E G opts)"

definition ox_plot_graph_folium :: "'o env \<Rightarrow> multigraph \<Rightarrow> string \<Rightarrow> int \<Rightarrow> string \<Rightarrow> ('o, 'o) py" where
  "ox_plot_graph_folium E G popup_attribute weight color =
     lib_call (PlotGraphFolium G popup_attribute weight color)
              (plot_graph_folium E G popup_attribute weight color)"

definition gpd_read_file :: "'o env \<Rightarrow> string \<Rightarrow> ('o, frame) py" where
  "gpd_read_file E url = lib_call (ReadFile url) (read_file E url)"

definition gdf_plot :: "'o env \<Rightarrow> frame \<Rightarrow> ('o, 'o) py" where
  "gdf_plot E df = lib_call (FramePlot df) (frame_plot E df)"

definition ox_basic_stats :: "'o env \<Rightarrow> multigraph \<Rightarrow> ('o, pyval) py" where
  "ox_basic_stats E G =
     (\<lambda>st. case basic_stats E G (heap st) of
              (r, h') \<Rightarrow> lib_call (BasicStats G) r (st\<lparr>heap := h'\<rparr>))"

definition pd_series :: "'o env \<Rightarrow> pyval \<Rightarrow> string option \<Rightarrow> ('o, 'o) py" where
  "pd_series E x name = (\<lambda>st. lib_call (PdSeries x name) (pd_Series E (heap st) x name) st)"

definition pd_dataframe :: "'o env \<Rightarrow> 'o \<Rightarrow> ('o, 'o) py" where
  "pd_dataframe E s = lib_call (PdDataFrame s) (pd_DataFrame E s)"

definition df_round :: "'o env \<Rightarrow> 'o \<Rightarrow> int \<Rightarrow> ('o, 'o) py" where
  "df_round E df decimals = lib_call (Round df decimals) (round_frame E df decimals)"

definition ox_get_node_colors_by_attr :: "'o env \<Rightarrow> multigraph \<Rightarrow> string \<Rightarrow> string \<Rightarrow> ('o, 'o) py" where
  "ox_get_node_colors_by_attr E G attr cmap =
     lib_call (GetNodeColorsByAttr G attr cmap) (get_node_colors_by_attr E G attr cmap)"

definition ox_get_digraph :: "'o env \<Rightarrow> multigraph \<Rightarrow> ('o, digraph) py" where
  "ox_get_digraph E G = lib_call (GetDigraph G) (get_digraph E G)"

definition nx_betweenness_centrality :: "'o env \<Rightarrow> digraph \<Rightarrow> string \<Rightarrow> ('o, (node \<times> real) list) py" where
  "nx_betweenness_centrality E G weight =
     lib_call (BetweennessCentrality G weight) (betweenness_centrality E G weight)"

definition nx_set_node_attributes :: "multigraph \<Rightarrow> (node \<times> real) list \<Rightarrow> string \<Rightarrow> ('o, multigraph) py" where
  "nx_set_node_attributes G vals name =
     lib_call (SetNodeAttributes G vals name) (Inr (set_node_attributes G vals name))"

definition ox_save_graph_geopackage :: "'o env \<Rightarrow> multigraph \<Rightarrow> string \<Rightarrow> ('o, unit) py" where
  "ox_save_graph_geopackage E G path = lib_call (SaveGraphGeopackage G path) (save_graph_geopackage E G path)"

definition ox_save_graph_shapefile :: "'o env \<Rightarrow> multigraph \<Rightarrow> string \<Rightarrow> ('o, unit) py" where
  "ox_save_graph_shapefile E G path = lib_call (SaveGraphShapefile G path) (save_graph_shapefile E G path)"

subsection \<open>The code cells\<close>

text \<open>Lines 37-43: comments only.\<close>

definition cell_install :: "('o, unit) py" where
  "cell_install = return_py ()"

text \<open>Lines 53-60: the imports; \<^verbatim>\<open>ox.__version__\<close> is displayed.\<close>

definition cell_imports :: "'o env \<Rightarrow> ('o, unit) py" where
  "cell_imports E =
     then_py (py_import E ''geopandas'')
    (then_py (py_import E ''networkx'')
    (then_py (py_import E ''osmnx'')
             (py_import E ''pandas'')))"

text \<open>Lines 150-152: \<^verbatim>\<open>hk_graph = ox.graph_from_point(center_point = (22.3192, 114.1693),
  dist = 1000, network_type='all_private')\<close>.\<close>

definition cell_graph_from_point :: "'o env \<Rightarrow> ('o, unit) py" where
  "cell_graph_from_point E =
     bind_py (ox_graph_from_point E (22.3192, 114.1693) 1000 ''all_private'')
       (\<lambda>G. assign (\<lambda>st. st\<lparr>hk_graph := Some G\<rparr>))"

text \<open>Line 170: \<^verbatim>\<open>ox.plot_graph(hk_graph, node_color="w", node_size=5)\<close>.\<close>

definition cell_plot_hk :: "'o env \<Rightarrow> ('o, unit) py" where
  "cell_plot_hk E =
     bind_py (read_var hk_graph)
       (\<lambda>G. bind_py (ox_plot_graph E G
                        (no_opts\<lparr>node_color := Some (ColorStr ''w''), node_size := Some (SizeOne 5)\<rparr>))
       (\<lambda>shown. return_py ()))"

text \<open>Lines 200-203: \<^verbatim>\<open>BOUNDARY_URL = "..."\<close> and \<^verbatim>\<open>tokyo_pre_boundary = gpd.read_file(BOUNDARY_URL)\<close>.\<close>

definition cell_read_boundary :: "'o env \<Rightarrow> ('o, unit) py" where
  "cell_read_boundary E =
     then_py (assign (\<lambda>st. st\<lparr>BOUNDARY_URL := Some
        ''https://raw.githubusercontent.com/smartnews-smri/japan-topography/main/data/municipality/geojson/s0010/N03-21_13_210101.json''\<rparr>))
    (bind_py (read_var BOUNDARY_URL)
       (\<lambda>url. bind_py (gpd_read_file E url)
       (\<lambda>df. assign (\<lambda>st. st\<lparr>tokyo_pre_boundary := Some df\<rparr>))))"

text \<open>Line 213: \<^verbatim>\<open>tokyo_pre_boundary\<close> is displayed.\<close>

definition cell_show_boundary :: "('o, unit) py" where
  "cell_show_boundary = bind_py (read_var tokyo_pre_boundary) (\<lambda>df. return_py ())"

text \<open>Lines 223-224: \<^verbatim>\<open>chiyoda = tokyo_pre_boundary[tokyo_pre_boundary.N03_004 == "..."]\<close>.\<close>

definition cell_filter_chiyoda :: "('o, unit) py" where
  "cell_filter_chiyoda =
     bind_py (read_var tokyo_pre_boundary)
       (\<lambda>df. bind_py (read_var tokyo_pre_boundary)
       (\<lambda>df'. assign (\<lambda>st. st\<lparr>chiyoda := Some (select_mask df (column_eq df' district_name))\<rparr>)))"

text \<open>Lines 234-235: \<^verbatim>\<open>chiyoda.plot()\<close>.\<close>

definition cell_plot_chiyoda :: "'o env \<Rightarrow> ('o, unit) py" where
  "cell_plot_chiyoda E =
     bind_py (read_var chiyoda) (\<lambda>df. bind_py (gdf_plot E df) (\<lambda>shown. return_py ()))"

text \<open>Lines 245-246: \<^verbatim>\<open>chiyoda['geometry'][0]\<close> is displayed.\<close>

definition cell_show_geometry :: "('o, unit) py" where
  "cell_show_geometry =
     bind_py (read_var chiyoda) (\<lambda>df. bind_py (of_result (geometry_at df 0)) (\<lambda>shown. return_py ()))"

text \<open>Lines 256-258: \<^verbatim>\<open>chiyoda_graph = ox.graph_from_polygon(chiyoda['geometry'][0])\<close>.\<close>

definition cell_graph_from_polygon :: "'o env \<Rightarrow> ('o, unit) py" where
  "cell_graph_from_polygon E =
     bind_py (read_var chiyoda)
       (\<lambda>df. bind_py (of_result (geometry_at df 0))
       (\<lambda>polygon. bind_py (ox_graph_from_polygon E polygon)
       (\<lambda>G. assign (\<lambda>st. st\<lparr>chiyoda_graph := Some G\<rparr>))))"

text \<open>Line 268: \<^verbatim>\<open>ox.plot_graph(chiyoda_graph)\<close>.\<close>

definition cell_plot_chiyoda_graph :: "'o env \<Rightarrow> ('o, unit) py" where
  "cell_plot_chiyoda_graph E =
     bind_py (read_var chiyoda_graph)
       (\<lambda>G. bind_py (ox_plot_graph E G no_opts) (\<lambda>shown. return_py ()))"

text \<open>Lines 286-288: \<^verbatim>\<open>chiyoda_folium = ox.plot_graph_folium(chiyoda_graph,
  popup_attribute="name", weight=2, color="#999999")\<close>, then \<^verbatim>\<open>chiyoda_folium\<close> is displayed.\<close>

definition cell_folium :: "'o env \<Rightarrow> ('o, unit) py" where
  "cell_folium E =
     bind_py (read_var chiyoda_graph)
       (\<lambda>G. bind_py (ox_plot_graph_folium E G ''name'' 2 ''#999999'')
       (\<lambda>m. then_py (assign (\<lambda>st. st\<lparr>chiyoda_folium := Some m\<rparr>))
      (bind_py (read_var chiyoda_folium) (\<lambda>shown. return_py ()))))"

text \<open>Line 312: \<^verbatim>\<open>ty_graph = ox.graph_from_place("Tsing Yi, Hong Kong")\<close>.\<close>

definition cell_graph_from_place :: "'o env \<Rightarrow> ('o, unit) py" where
  "cell_graph_from_place E =
     bind_py (ox_graph_from_place E ''Tsing Yi, Hong Kong'')
       (\<lambda>G. assign (\<lambda>st. st\<lparr>ty_graph := Some G\<rparr>))"

text \<open>Line 346: \<^verbatim>\<open>stats = ox.basic_stats(hk_graph)\<close>.\<close>

definition cell_basic_stats :: "'o env \<Rightarrow> ('o, unit) py" where
  "cell_basic_stats E =
     bind_py (read_var hk_graph)
       (\<lambda>G. bind_py (ox_basic_stats E G)
       (\<lambda>d. assign (\<lambda>st. st\<lparr>stats := Some d\<rparr>)))"

text \<open>Line 356: \<^verbatim>\<open>pd.Series(stats)\<close> is displayed.\<close>

definition cell_stats_series :: "'o env \<Rightarrow> ('o, unit) py" where
  "cell_stats_series E =
     bind_py (read_var stats) (\<lambda>d. bind_py (pd_series E d None) (\<lambda>shown. return_py ()))"

text \<open>
  Lines 404-416. \<^verbatim>\<open>stats_unpack = deepcopy(stats)\<close>; the two loops
  \<^verbatim>\<open>for k, count in stats_unpack["streets_per_node_counts"].items():
      stats_unpack["{}way_int_count".format(k)] = count\<close> and the same for
  \<^verbatim>\<open>"streets_per_node_proportions"\<close> and \<^verbatim>\<open>"{}way_int_prop"\<close>; then the two \<^verbatim>\<open>del\<close>
  statements.
\<close>

definition unpack_for :: "string \<Rightarrow> string \<Rightarrow> ('o, unit) py" where
  "unpack_for nested sfx =
     bind_py (read_var stats_unpack)
       (\<lambda>d. bind_py (heap_op (subscript d (KStr nested)))
       (\<lambda>x. bind_py (read_var stats_unpack)
       (\<lambda>target. heap_op (unpack_items sfx target x))))"

definition del_stats_unpack :: "string \<Rightarrow> ('o, unit) py" where
  "del_stats_unpack nested =
     bind_py (read_var stats_unpack) (\<lambda>d. heap_op (delitem d (KStr nested)))"

definition build_stats_unpack :: "'o env \<Rightarrow> ('o, unit) py" where
  "build_stats_unpack E =
     then_py (py_import E ''copy'')
    (bind_py (read_var stats)
       (\<lambda>d. bind_py (heap_op (py_deepcopy (recursion_limit E) d))
       (\<lambda>c. then_py (assign (\<lambda>st. st\<lparr>stats_unpack := Some c\<rparr>))
      (then_py (unpack_for ''streets_per_node_counts'' ''way_int_count'')
      (then_py (unpack_for ''streets_per_node_proportions'' ''way_int_prop'')
      (then_py (del_stats_unpack ''streets_per_node_counts'')
               (del_stats_unpack ''streets_per_node_proportions'')))))))"

text \<open>Lines 418-419: \<^verbatim>\<open>pd.DataFrame(pd.Series(stats_unpack, name="value")).round(3)\<close> is
  displayed.\<close>

definition cell_stats_unpack :: "'o env \<Rightarrow> ('o, unit) py" where
  "cell_stats_unpack E =
     then_py (build_stats_unpack E)
    (bind_py (read_var stats_unpack)
       (\<lambda>d. bind_py (pd_series E d (Some ''value''))
       (\<lambda>s. bind_py (pd_dataframe E s)
       (\<lambda>df. bind_py (df_round E df 3)
       (\<lambda>shown. return_py ())))))"

text \<open>Lines 445-459: the nodes coloured by their \<^verbatim>\<open>street_count\<close>.\<close>

definition cell_street_count :: "'o env \<Rightarrow> ('o, unit) py" where
  "cell_street_count E =
     bind_py (read_var hk_graph)
       (\<lambda>G. bind_py (ox_get_node_colors_by_attr E G ''street_count'' ''YlGnBu'')
       (\<lambda>colors. then_py (assign (\<lambda>st. st\<lparr>nc_street_count := Some colors\<rparr>))
      (bind_py (read_var hk_graph)
       (\<lambda>G'. bind_py (read_var nc_street_count)
       (\<lambda>colors'. bind_py (ox_plot_graph E G'
                      (no_opts\<lparr>bgcolor := Some ''#232323'',
                               node_color := Some (ColorSeries colors'),
                               node_size := Some (SizeOne 5),
                               node_zorder := Some 2,
                               edge_linewidth := Some 0.2,
                               edge_color := Some ''w''\<rparr>))
       (\<lambda>(f, a). assign (\<lambda>st. st\<lparr>fig := Some f, ax := Some a\<rparr>)))))))"

text \<open>
  Lines 487-495: \<^verbatim>\<open>hk_graph_di = ox.get_digraph(hk_graph)\<close>,
  \<^verbatim>\<open>bc = nx.betweenness_centrality(hk_graph_di, weight="length")\<close>,
  \<^verbatim>\<open>max_node, max_bc = max(bc.items(), key=lambda x: x[1])\<close>, and the pair
  \<^verbatim>\<open>max_node, max_bc\<close> is displayed.
\<close>

definition cell_centrality :: "'o env \<Rightarrow> ('o, unit) py" where
  "cell_centrality E =
     bind_py (read_var hk_graph)
       (\<lambda>G. bind_py (ox_get_digraph E G)
       (\<lambda>D. then_py (assign (\<lambda>st. st\<lparr>hk_graph_di := Some D\<rparr>))
      (bind_py (read_var hk_graph_di)
       (\<lambda>D'. bind_py (nx_betweenness_centrality E D' ''length'')
       (\<lambda>scores. then_py (assign (\<lambda>st. st\<lparr>bc := Some scores\<rparr>))
      (bind_py (read_var bc)
       (\<lambda>scores'. bind_py (of_result (py_max snd scores'))
       (\<lambda>(n, s). then_py (assign (\<lambda>st. st\<lparr>max_node := Some n, max_bc := Some s\<rparr>))
      (bind_py (read_var max_node)
       (\<lambda>shown. bind_py (read_var max_bc)
       (\<lambda>shown'. return_py ())))))))))))"

text \<open>
  Lines 513-520. \<^verbatim>\<open>nc = ["r" if node == max_node else "w" for node in hk_graph.nodes]\<close>
  and \<^verbatim>\<open>ns = [80 if node == max_node else 5 for node in hk_graph.nodes]\<close>: the name
  \<^verbatim>\<open>max_node\<close> is looked up once for every node, so not at all for a graph without
  nodes. Then \<^verbatim>\<open>fig, ax = ox.plot_graph(hk_graph, node_size=ns, node_color=nc,
  node_zorder=2)\<close>.
\<close>

definition mark_max_node :: "'a \<Rightarrow> 'a \<Rightarrow> node list \<Rightarrow> ('o, 'a list) py" where
  "mark_max_node hit miss vs =
     (if vs = [] then return_py []
      else bind_py (read_var max_node)
             (\<lambda>m. return_py (map (\<lambda>node. if node = m then hit else miss) vs)))"

definition cell_highlight :: "'o env \<Rightarrow> ('o, unit) py" where
  "cell_highlight E =
     bind_py (read_var hk_graph)
       (\<lambda>G. bind_py (mark_max_node ''r'' ''w'' (map fst (nodes G)))
       (\<lambda>colors. then_py (assign (\<lambda>st. st\<lparr>nc := Some (ColorList colors)\<rparr>))
      (bind_py (read_var hk_graph)
       (\<lambda>G'. bind_py (mark_max_node 80 5 (map fst (nodes G')))
       (\<lambda>sizes. then_py (assign (\<lambda>st. st\<lparr>ns := Some sizes\<rparr>))
      (bind_py (read_var hk_graph)
       (\<lambda>G''. bind_py (read_var ns)
       (\<lambda>sizes'. bind_py (read_var nc)
       (\<lambda>colors'. bind_py (ox_plot_graph E G''
                      (no_opts\<lparr>node_size := Some (SizeList sizes'),
                               node_color := Some colors',
                               node_zorder := Some 2\<rparr>))
       (\<lambda>(f, a). assign (\<lambda>st. st\<lparr>fig := Some f, ax := Some a\<rparr>)))))))))))"

text \<open>
  Lines 542-555: \<^verbatim>\<open>nx.set_node_attributes(hk_graph, bc, "bc")\<close> changes the graph object
  that \<^verbatim>\<open>hk_graph\<close> is bound to; then the nodes are coloured by \<^verbatim>\<open>bc\<close> and plotted.
\<close>

definition cell_attach_bc :: "'o env \<Rightarrow> ('o, unit) py" where
  "cell_attach_bc E =
     bind_py (read_var hk_graph)
       (\<lambda>G. bind_py (read_var bc)
       (\<lambda>scores. bind_py (nx_set_node_attributes G scores ''bc'')
       (\<lambda>G'. then_py (assign (\<lambda>st. st\<lparr>hk_graph := Some G'\<rparr>))
      (bind_py (read_var hk_graph)
       (\<lambda>G''. bind_py (ox_get_node_colors_by_attr E G'' ''bc'' ''Reds'')
       (\<lambda>colors. then_py (assign (\<lambda>st. st\<lparr>nc := Some (ColorSeries colors)\<rparr>))
      (bind_py (read_var hk_graph)
       (\<lambda>G3. bind_py (read_var nc)
       (\<lambda>colors'. bind_py (ox_plot_graph E G3
                      (no_opts\<lparr>bgcolor := Some ''#232323'',
                               node_color := Some colors',
                               node_size := Some (SizeOne 5),
                               node_zorder := Some 2,
                               edge_linewidth := Some 0.2,
                               edge_color := Some ''w''\<rparr>))
       (\<lambda>(f, a). assign (\<lambda>st. st\<lparr>fig := Some f, ax := Some a\<rparr>)))))))))))"

text \<open>Line 585: \<^verbatim>\<open>ox.save_graph_geopackage(hk_graph, filepath="./data-output/hk_graph.gpkg")\<close>.\<close>

definition cell_save_geopackage :: "'o env \<Rightarrow> ('o, unit) py" where
  "cell_save_geopackage E =
     bind_py (read_var hk_graph)
       (\<lambda>G. ox_save_graph_geopackage E G ''./data-output/hk_graph.gpkg'')"

text \<open>Line 613: \<^verbatim>\<open>ox.save_graph_shapefile(hk_graph, filepath="./data-output/hk_graph/")\<close>.\<close>

definition cell_save_shapefile :: "'o env \<Rightarrow> ('o, unit) py" where
  "cell_save_shapefile E =
     bind_py (read_var hk_graph)
       (\<lambda>G. ox_save_graph_shapefile E G ''./data-output/hk_graph/'')"

text \<open>Lines 633-634: \<^verbatim>\<open>fig, ax = ox.plot_graph(hk_graph, show=False, save=True, close=True,
  filepath="./hk_graph.svg")\<close>.\<close>

definition cell_save_svg :: "'o env \<Rightarrow> ('o, unit) py" where
  "cell_save_svg E =
     bind_py (read_var hk_graph)
       (\<lambda>G. bind_py (ox_plot_graph E G
                        (no_opts\<lparr>show' := Some False, save := Some True, close' := Some True,
                                 filepath := Some ''./hk_graph.svg''\<rparr>))
       (\<lambda>(f, a). assign (\<lambda>st. st\<lparr>fig := Some f, ax := Some a\<rparr>)))"

subsection \<open>Running the notebook\<close>

definition notebook :: "'o env \<Rightarrow> ('o, unit) py list" where
  "notebook E =
     [cell_install, cell_imports E, cell_graph_from_point E, cell_plot_hk E,
      cell_read_boundary E, cell_show_boundary, cell_filter_chiyoda, cell_plot_chiyoda E,
      cell_show_geometry, cell_graph_from_polygon E, cell_plot_chiyoda_graph E,
      cell_folium E, cell_graph_from_place E, cell_basic_stats E, cell_stats_series E,
      cell_stats_unpack E, cell_street_count E, cell_centrality E, cell_highlight E,
      cell_attach_bc E, cell_save_geopackage E, cell_save_shapefile E, cell_save_svg E]"

text \<open>
  The cells run in order, each with its number as the running cell. An exception that
  leaves a cell stops the run there; the state is the one the cell had reached.
\<close>

datatype outcome = Completed | Halted nat exn

fun run_cells :: "nat \<Rightarrow> ('o, unit) py list \<Rightarrow> 'o kernel \<Rightarrow> outcome \<times> 'o kernel" where
  "run_cells k [] st = (Completed, st)"
| "run_cells k (c # cs) st =
     (case c (st\<lparr>cur_cell := k\<rparr>) of
        (Inl e, st') \<Rightarrow> (Halted k e, st')
      | (Inr u, st') \<Rightarrow> run_cells (Suc k) cs st')"

definition run_notebook :: "'o env \<Rightarrow> outcome \<times> 'o kernel" where
  "run_notebook E = run_cells 0 (notebook E) fresh_kernel"

text \<open>A path is relative when it does not start at the root directory.\<close>

definition is_relative :: "string \<Rightarrow> bool" where
  "is_relative path = (case path of [] \<Rightarrow> False | c # cs \<Rightarrow> c \<noteq> CHR ''/'')"

subsection \<open>Propagation of exceptions\<close>

text \<open>
  A step from \<open>st\<close> to \<open>st'\<close> with outcome \<open>r\<close> propagates exceptions when it leaves the
  running cell's number alone and only appends records of the running cell, when every
  appended record that raised is the last record and its exception is the outcome \<open>r\<close>,
  and when an outcome \<open>r\<close> that is an exception is the one of the last record. A
  computation propagates when all its steps do.
\<close>

definition propagated :: "'o kernel \<Rightarrow> exn + 'a \<Rightarrow> 'o kernel \<Rightarrow> bool" where
  "propagated st r st' \<longleftrightarrow>
     cur_cell st' = cur_cell st \<and>
     (\<exists>evs. calls st' = calls st @ evs \<and>
            (\<forall>ev \<in> set evs. ev_cell ev = cur_cell st) \<and>
            (\<forall>i e. i < length evs \<and> ev_raised (evs ! i) = Some e
                   \<longrightarrow> Suc i = length evs \<and> r = Inl e) \<and>
            (\<forall>e. r = Inl e \<longrightarrow> evs \<noteq> [] \<and> ev_raised (last evs) = Some e))"

definition propagates :: "('o, 'a) py \<Rightarrow> bool" where
  "propagates m \<longleftrightarrow> (\<forall>st. propagated st (fst (m st)) (snd (m st)))"

subsection \<open>Writing only to the copy\<close>

text \<open>
  A step from \<open>st\<close> to \<open>st'\<close> writes only to the copy when it rebinds neither \<^verbatim>\<open>stats\<close>
  nor \<^verbatim>\<open>stats_unpack\<close>, allocates nothing, and changes no dictionary other than the one
  \<^verbatim>\<open>stats_unpack\<close> refers to.
\<close>

definition writes_copy_only :: "'o kernel \<Rightarrow> 'o kernel \<Rightarrow> bool" where
  "writes_copy_only st st' \<longleftrightarrow>
     stats st' = stats st \<and> stats_unpack st' = stats_unpack st \<and>
     length (heap st') = length (heap st) \<and>
     (\<forall>a. stats_unpack st \<noteq> Some (VRef a) \<longrightarrow> heap st' ! a = heap st ! a)"

subsection \<open>An example environment\<close>

text \<open>
  A small street network, its simple directed graph, a centrality mapping, a boundary
  table and a statistics dictionary, and an environment in which every library call
  succeeds with them. They are the concrete inputs on which the theorems below are run.
\<close>

definition example_graph :: multigraph where
  "example_graph =
     \<lparr>nodes = [(101, [(''street_count'', AInt 1)]),
               (102, [(''street_count'', AInt 3)]),
               (103, [(''street_count'', AInt 1)])],
      edges = [(101, 102, 0, [(''length'', AFloat 120)]),
               (102, 101, 0, [(''length'', AFloat 120)]),
               (102, 103, 0, [(''length'', AFloat 80)]),
               (102, 103, 1, [(''length'', AFloat 95)])]\<rparr>"

definition example_digraph :: digraph where
  "example_digraph =
     \<lparr>di_nodes = [(101, [(''street_count'', AInt 1)]),
                  (102, [(''street_count'', AInt 3)]),
                  (103, [(''street_count'', AInt 1)])],
      di_edges = [(101, 102, [(''length'', AFloat 120)]),
                  (102, 101, [(''length'', AFloat 120)]),
                  (102, 103, [(''length'', AFloat 80)])]\<rparr>"

definition example_scores :: "(node \<times> real) list" where
  "example_scores = [(101, 0), (102, 0.5), (103, 0)]"

definition example_boundary :: frame where
  "example_boundary =
     [(0, \<lparr>N03_004 = Some district_name, geometry = [(0, 0), (1, 0), (1, 1)],
           other_columns = [(''N03_007'', ''13101'')]\<rparr>),
      (1, \<lparr>N03_004 = Some ''Chuo'', geometry = [(1, 0), (2, 0), (2, 1)],
           other_columns = [(''N03_007'', ''13102'')]\<rparr>),
      (2, \<lparr>N03_004 = None, geometry = [(5, 5), (6, 5), (6, 6)], other_columns = []\<rparr>)]"

definition example_basic_stats :: "store \<Rightarrow> (exn + pyval) \<times> store" where
  "example_basic_stats h =
     (Inr (VRef (length h + 2)),
      h @ [[(KInt 1, VInt 2), (KInt 3, VInt 1)],
           [(KInt 1, VFloat (2 / 3)), (KInt 3, VFloat (1 / 3))],
           [(KStr ''n'', VInt 3),
            (KStr ''streets_per_node_counts'', VRef (length h)),
            (KStr ''streets_per_node_proportions'', VRef (length h + 1)),
            (KStr ''circuity_avg'', VNone)]])"

definition example_env :: "unit env" where
  "example_env =
     \<lparr>import_module = (\<lambda>name. Inr ()),
      graph_from_point = (\<lambda>center_point distance network_type. Inr example_graph),
      graph_from_polygon = (\<lambda>polygon. Inr example_graph),
      graph_from_place = (\<lambda>query. Inr example_graph),
      plot_graph = (\<lambda>G opts. Inr ((), ())),
      plot_graph_folium = (\<lambda>G popup_attribute weight color. Inr ()),
      read_file = (\<lambda>url. Inr example_boundary),
      frame_plot = (\<lambda>df. Inr ()),
      basic_stats = (\<lambda>G. example_basic_stats),
      pd_Series = (\<lambda>h x name. Inr ()),
      pd_DataFrame = (\<lambda>s. Inr ()),
      round_frame = (\<lambda>df decimals. Inr ()),
      get_node_colors_by_attr = (\<lambda>G attr cmap. Inr ()),
      get_digraph = (\<lambda>G. Inr example_digraph),
      betweenness_centrality = (\<lambda>G weight. Inr example_scores),
      save_graph_geopackage = (\<lambda>G path. Inr ()),
      save_graph_shapefile = (\<lambda>G path. Inr ()),
      recursion_limit = 1000\<rparr>"

text \<open>The same environment with a network that times out in \<^verbatim>\<open>ox.graph_from_point\<close>.\<close>

definition timeout_env :: "unit env" where
  "timeout_env =
     example_env\<lparr>graph_from_point :=
       (\<lambda>center_point distance network_type. Inl (LibraryError ''timeout''))\<rparr>"

subsection \<open>Properties of \<^verbatim>\<open>max\<close>\<close>






subsection \<open>Exceptions are propagated by every computation of the notebook\<close>

lemma propagatesI:
  assumes "\<And>st r st'. m st = (r, st') \<Longrightarrow> propagated st r st'"
  shows "propagates m"
  unfolding propagates_def using assms by (simp add: prod_eq_iff)

lemma propagatesD:
  assumes "propagates m" and "m st = (r, st')"
  shows "propagated st r st'"
  using assms unfolding propagates_def by (metis fst_conv snd_conv)

lemma propagated_quiet:
  assumes "cur_cell st' = cur_cell st" and "calls st' = calls st"
  shows "propagated st (Inr x) st'"
  unfolding propagated_def using assms by (intro conjI exI [of _ "[]"]) simp_all

lemma propagated_one:
  assumes "cur_cell st' = cur_cell st"
    and "calls st' = calls st @ [\<lparr>ev_cell = cur_cell st, ev_request = rq, ev_raised = raised r\<rparr>]"
  shows "propagated st r st'"
  unfolding propagated_def using assms
  by (intro conjI exI [of _ "[\<lparr>ev_cell = cur_cell st, ev_request = rq, ev_raised = raised r\<rparr>]"])
     (auto simp: raised_def split: sum.splits)

lemma propagated_of_result:
  assumes "cur_cell st1 = cur_cell st" and "calls st1 = calls st"
  shows "propagated st r (record_raise r st1)"
proof (cases r)
  case (Inl e)
  then have "raised r = Some e" by (simp add: raised_def)
  with Inl assms show ?thesis
    by (intro propagated_one [where rq = Interpreter]) (simp_all add: record_raise_def)
next
  case (Inr x)
  with assms show ?thesis by (simp add: record_raise_def propagated_quiet)
qed

lemma propagates_return: "propagates (return_py x)"
  by (rule propagatesI) (auto simp: return_py_def intro: propagated_quiet)

lemma propagates_of_result: "propagates (of_result r)"
  by (rule propagatesI) (auto simp: of_result_def intro: propagated_of_result)

lemma propagates_read_var: "propagates (read_var var)"
  by (rule propagatesI) (auto simp: read_var_def of_result_def intro: propagated_of_result)

lemma propagates_assign:
  assumes "\<And>st. cur_cell (upd st) = cur_cell st" and "\<And>st. calls (upd st) = calls st"
  shows "propagates (assign upd)"
  by (rule propagatesI) (auto simp: assign_def assms intro: propagated_quiet)

lemma propagates_heap_op: "propagates (heap_op f)"
  by (rule propagatesI)
     (auto simp: heap_op_def of_result_def split: prod.splits intro: propagated_of_result)

lemma propagates_lib_call: "propagates (lib_call rq r)"
  by (rule propagatesI) (auto simp: lib_call_def intro: propagated_one)

lemma propagated_trans:
  assumes one: "propagated st (Inr x :: exn + 'a) st1" and two: "propagated st1 (r :: exn + 'b) st'"
  shows "propagated st r st'"
proof -
  from one obtain evs1 where
    c1: "cur_cell st1 = cur_cell st" and l1: "calls st1 = calls st @ evs1"
    and o1: "\<forall>ev \<in> set evs1. ev_cell ev = cur_cell st"
    and p1: "\<forall>i e. i < length evs1 \<and> ev_raised (evs1 ! i) = Some e
               \<longrightarrow> Suc i = length evs1 \<and> (Inr x :: exn + 'a) = Inl e"
    unfolding propagated_def by blast
  from two obtain evs2 where
    c2: "cur_cell st' = cur_cell st1" and l2: "calls st' = calls st1 @ evs2"
    and o2: "\<forall>ev \<in> set evs2. ev_cell ev = cur_cell st1"
    and p2: "\<forall>i e. i < length evs2 \<and> ev_raised (evs2 ! i) = Some e \<longrightarrow> Suc i = length evs2 \<and> r = Inl e"
    and q2: "\<forall>e. r = Inl e \<longrightarrow> evs2 \<noteq> [] \<and> ev_raised (last evs2) = Some e"
    unfolding propagated_def by blast
  have quiet1: "ev_raised (evs1 ! i) = None" if "i < length evs1" for i
  proof (cases "ev_raised (evs1 ! i)")
    case None
    then show ?thesis .
  next
    case (Some e)
    with p1 that have "(Inr x :: exn + 'a) = Inl e" by blast
    then show ?thesis by simp
  qed
  have "Suc i = length (evs1 @ evs2) \<and> r = Inl e"
    if a: "i < length (evs1 @ evs2) \<and> ev_raised ((evs1 @ evs2) ! i) = Some e" for i e
  proof (cases "i < length evs1")
    case True
    with a quiet1 [of i] show ?thesis by (simp add: nth_append)
  next
    case False
    with a have "i - length evs1 < length evs2 \<and> ev_raised (evs2 ! (i - length evs1)) = Some e"
      by (auto simp: nth_append)
    with p2 have "Suc (i - length evs1) = length evs2 \<and> r = Inl e" by blast
    with False show ?thesis by auto
  qed
  then have "\<forall>i e. i < length (evs1 @ evs2) \<and> ev_raised ((evs1 @ evs2) ! i) = Some e
               \<longrightarrow> Suc i = length (evs1 @ evs2) \<and> r = Inl e"
    by blast
  moreover have "\<forall>e. r = Inl e \<longrightarrow> evs1 @ evs2 \<noteq> [] \<and> ev_raised (last (evs1 @ evs2)) = Some e"
    using q2 by auto
  moreover have "calls st' = calls st @ (evs1 @ evs2)" using l1 l2 by simp
  moreover have "\<forall>ev \<in> set (evs1 @ evs2). ev_cell ev = cur_cell st" using o1 o2 c1 by auto
  moreover have "cur_cell st' = cur_cell st" using c1 c2 by simp
  ultimately show ?thesis unfolding propagated_def by blast
qed

lemma propagated_Inl:
  assumes "propagated st (Inl e :: exn + 'a) st'"
  shows "propagated st (Inl e :: exn + 'b) st'"
  using assms unfolding propagated_def by auto

lemma propagates_bind:
  assumes m: "propagates m" and f: "\<And>x. propagates (f x)"
  shows "propagates (bind_py m f)"
proof (rule propagatesI)
  fix st r st' assume run: "bind_py m f st = (r, st')"
  obtain r1 st1 where m1: "m st = (r1, st1)" by (cases "m st")
  note one = propagatesD [OF m m1]
  show "propagated st r st'"
  proof (cases r1)
    case (Inl e1)
    with run m1 have "r = Inl e1" "st' = st1" by (simp_all add: bind_py_def)
    with one Inl show ?thesis by (simp add: propagated_Inl)
  next
    case (Inr x)
    with run m1 have f1: "f x st1 = (r, st')" by (simp add: bind_py_def)
    from one Inr have "propagated st (Inr x) st1" by simp
    then show ?thesis using propagatesD [OF f f1] by (rule propagated_trans)
  qed
qed

lemma propagates_then: "propagates m \<Longrightarrow> propagates n \<Longrightarrow> propagates (then_py m n)"
  unfolding then_py_def by (rule propagates_bind)

lemma propagates_case_prod: "(\<And>a b. propagates (f a b)) \<Longrightarrow> propagates (case p of (a, b) \<Rightarrow> f a b)"
  by (cases p) simp

lemma propagates_if: "propagates m \<Longrightarrow> propagates n \<Longrightarrow> propagates (if c then m else n)"
  by simp

lemma propagates_basic_stats: "propagates (ox_basic_stats E G)"
proof (rule propagatesI)
  fix st r st' assume run: "ox_basic_stats E G st = (r, st')"
  obtain r0 h' where bs: "basic_stats E G (heap st) = (r0, h')" by (cases "basic_stats E G (heap st)")
  with run have lc: "lib_call (BasicStats G) r0 (st\<lparr>heap := h'\<rparr>) = (r, st')"
    by (simp add: ox_basic_stats_def)
  from propagatesD [OF propagates_lib_call lc]
  show "propagated st r st'" by (simp add: propagated_def)
qed

lemma propagates_pd_series: "propagates (pd_series E x name)"
proof (rule propagatesI)
  fix st r st' assume run: "pd_series E x name st = (r, st')"
  then have lc: "lib_call (PdSeries x name) (pd_Series E (heap st) x name) st = (r, st')"
    by (simp add: pd_series_def)
  from propagatesD [OF propagates_lib_call lc]
  show "propagated st r st'" .
qed

lemmas propagates_intros =
  propagates_return propagates_of_result propagates_read_var propagates_assign
  propagates_heap_op propagates_lib_call propagates_bind propagates_then
  propagates_case_prod propagates_if propagates_basic_stats propagates_pd_series

lemmas lib_defs =
  py_import_def ox_graph_from_point_def ox_graph_from_polygon_def ox_graph_from_place_def
  ox_plot_graph_def ox_plot_graph_folium_def gpd_read_file_def gdf_plot_def
  pd_dataframe_def df_round_def ox_get_node_colors_by_attr_def ox_get_digraph_def
  nx_betweenness_centrality_def nx_set_node_attributes_def ox_save_graph_geopackage_def
  ox_save_graph_shapefile_def

lemmas cell_defs =
  cell_install_def cell_imports_def cell_graph_from_point_def cell_plot_hk_def
  cell_read_boundary_def cell_show_boundary_def cell_filter_chiyoda_def cell_plot_chiyoda_def
  cell_show_geometry_def cell_graph_from_polygon_def cell_plot_chiyoda_graph_def
  cell_folium_def cell_graph_from_place_def cell_basic_stats_def cell_stats_series_def
  cell_stats_unpack_def build_stats_unpack_def unpack_for_def del_stats_unpack_def
  cell_street_count_def cell_centrality_def cell_highlight_def mark_max_node_def
  cell_attach_bc_def cell_save_geopackage_def cell_save_shapefile_def cell_save_svg_def

lemma propagates_notebook: "c \<in> set (notebook E) \<Longrightarrow> propagates c"
  unfolding notebook_def set_simps insert_iff empty_iff
  apply (elim disjE)
  apply (simp_all only:)
  unfolding cell_defs lib_defs
  apply (intro propagates_intros; simp)+
  done

lemma run_cells_propagated:
  assumes "\<forall>c \<in> set cs. propagates c" and "run_cells k cs st0 = (out, st)"
  shows "\<exists>evs. calls st = calls st0 @ evs \<and>
           (\<forall>ev \<in> set evs. k \<le> ev_cell ev \<and> ev_cell ev < k + length cs) \<and>
           (\<forall>i e. i < length evs \<and> ev_raised (evs ! i) = Some e
                  \<longrightarrow> Suc i = length evs \<and> out = Halted (ev_cell (evs ! i)) e) \<and>
           (\<forall>c e. out = Halted c e
                  \<longrightarrow> evs \<noteq> [] \<and> ev_raised (last evs) = Some e \<and> ev_cell (last evs) = c)"
  using assms
proof (induction cs arbitrary: k st0)
  case Nil
  then have "calls st = calls st0 @ []" "out = Completed" by simp_all
  then show ?case by (intro exI [of _ "[]"]) simp
next
  case (Cons c cs)
  obtain r st1 where c1: "c (st0\<lparr>cur_cell := k\<rparr>) = (r, st1)" by (cases "c (st0\<lparr>cur_cell := k\<rparr>)")
  from Cons.prems(1) have "propagates c" by simp
  from propagatesD [OF this c1] obtain evs1 where
    l1: "calls st1 = calls st0 @ evs1"
    and o1: "\<forall>ev \<in> set evs1. ev_cell ev = k"
    and p1: "\<forall>i e. i < length evs1 \<and> ev_raised (evs1 ! i) = Some e \<longrightarrow> Suc i = length evs1 \<and> r = Inl e"
    and q1: "\<forall>e. r = Inl e \<longrightarrow> evs1 \<noteq> [] \<and> ev_raised (last evs1) = Some e"
    unfolding propagated_def by auto
  show ?case
  proof (cases r)
    case (Inl e1)
    with Cons.prems(2) c1 have out: "out = Halted k e1" and st: "st = st1" by simp_all
    have "\<forall>i e. i < length evs1 \<and> ev_raised (evs1 ! i) = Some e
            \<longrightarrow> Suc i = length evs1 \<and> out = Halted (ev_cell (evs1 ! i)) e"
      using p1 o1 Inl out by auto
    moreover have "\<forall>ev \<in> set evs1. k \<le> ev_cell ev \<and> ev_cell ev < k + length (c # cs)"
      using o1 by simp
    moreover have "\<forall>c e. out = Halted c e
            \<longrightarrow> evs1 \<noteq> [] \<and> ev_raised (last evs1) = Some e \<and> ev_cell (last evs1) = c"
      using q1 o1 Inl out by auto
    ultimately show ?thesis using l1 st by blast
  next
    case (Inr u)
    with Cons.prems(2) c1 have rest: "run_cells (Suc k) cs st1 = (out, st)" by simp
    from Cons.prems(1) have "\<forall>c \<in> set cs. propagates c" by simp
    from Cons.IH [OF this rest] obtain evs2 where
      l2: "calls st = calls st1 @ evs2"
      and o2: "\<forall>ev \<in> set evs2. Suc k \<le> ev_cell ev \<and> ev_cell ev < Suc k + length cs"
      and p2: "\<forall>i e. i < length evs2 \<and> ev_raised (evs2 ! i) = Some e
                 \<longrightarrow> Suc i = length evs2 \<and> out = Halted (ev_cell (evs2 ! i)) e"
      and q2: "\<forall>c e. out = Halted c e
                 \<longrightarrow> evs2 \<noteq> [] \<and> ev_raised (last evs2) = Some e \<and> ev_cell (last evs2) = c"
      by blast
    have quiet1: "ev_raised (evs1 ! i) = None" if "i < length evs1" for i
    proof (cases "ev_raised (evs1 ! i)")
      case None
      then show ?thesis .
    next
      case (Some e)
      with p1 that have "r = Inl e" by blast
      with Inr show ?thesis by simp
    qed
    have "Suc i = length (evs1 @ evs2) \<and> out = Halted (ev_cell ((evs1 @ evs2) ! i)) e"
      if a: "i < length (evs1 @ evs2) \<and> ev_raised ((evs1 @ evs2) ! i) = Some e" for i e
    proof (cases "i < length evs1")
      case True
      with a quiet1 [of i] show ?thesis by (simp add: nth_append)
    next
      case False
      with a have "i - length evs1 < length evs2 \<and> ev_raised (evs2 ! (i - length evs1)) = Some e"
        by (auto simp: nth_append)
      with p2 have "Suc (i - length evs1) = length evs2
                    \<and> out = Halted (ev_cell (evs2 ! (i - length evs1))) e" by blast
      with False show ?thesis by (auto simp: nth_append)
    qed
    then have "\<forall>i e. i < length (evs1 @ evs2) \<and> ev_raised ((evs1 @ evs2) ! i) = Some e
                 \<longrightarrow> Suc i = length (evs1 @ evs2) \<and> out = Halted (ev_cell ((evs1 @ evs2) ! i)) e"
      by blast
    moreover have "\<forall>c e. out = Halted c e
            \<longrightarrow> evs1 @ evs2 \<noteq> [] \<and> ev_raised (last (evs1 @ evs2)) = Some e
                \<and> ev_cell (last (evs1 @ evs2)) = c"
      using q2 by auto
    moreover have "calls st = calls st0 @ (evs1 @ evs2)" using l1 l2 by simp
    moreover have "\<forall>ev \<in> set (evs1 @ evs2). k \<le> ev_cell ev \<and> ev_cell ev < k + length (c # cs)"
      using o1 o2 by auto
    ultimately show ?thesis by blast
  qed
qed

lemmas run_defs =
  bind_py_def then_py_def return_py_def of_result_def read_var_def assign_def heap_op_def
  lib_call_def raised_def record_raise_def

lemmas example_defs =
  example_env_def example_graph_def example_digraph_def example_scores_def
  example_boundary_def example_basic_stats_def fresh_kernel_def

subsection \<open>Computations that return\<close>

lemma bind_py_Inr:
  "bind_py m f st = (Inr y, st') \<longleftrightarrow> (\<exists>x st1. m st = (Inr x, st1) \<and> f x st1 = (Inr y, st'))"
  by (cases "m st") (auto simp: bind_py_def split: sum.splits)

lemma then_py_Inr:
  "then_py m n st = (Inr y, st') \<longleftrightarrow> (\<exists>x st1. m st = (Inr x, st1) \<and> n st1 = (Inr y, st'))"
  by (simp add: then_py_def bind_py_Inr)

lemma return_py_eq: "return_py x st = (r, st') \<longleftrightarrow> r = Inr x \<and> st' = st"
  by (auto simp: return_py_def)

lemma of_result_Inr: "of_result r0 st = (Inr x, st') \<longleftrightarrow> r0 = Inr x \<and> st' = st"
  by (auto simp: of_result_def record_raise_def)

lemma read_var_Inr: "read_var var st = (Inr x, st') \<longleftrightarrow> var st = Some x \<and> st' = st"
  by (auto simp: read_var_def of_result_def record_raise_def split: option.splits)

lemma heap_op_Inr:
  "heap_op f st = (Inr x, st') \<longleftrightarrow> (\<exists>h'. f (heap st) = (Inr x, h') \<and> st' = st\<lparr>heap := h'\<rparr>)"
  by (cases "f (heap st)") (auto simp: heap_op_def of_result_def record_raise_def)

lemma assign_eq: "assign upd st = (r, st') \<longleftrightarrow> r = Inr () \<and> st' = upd st"
  by (auto simp: assign_def)

lemma lib_call_eq:
  "lib_call rq r0 st = (r, st') \<longleftrightarrow>
     r = r0 \<and> st' = st\<lparr>calls := calls st @ [\<lparr>ev_cell = cur_cell st, ev_request = rq, ev_raised = raised r0\<rparr>]\<rparr>"
  by (auto simp: lib_call_def)

lemma run_cells_Completed:
  "run_cells k (c # cs) st = (Completed, st') \<longleftrightarrow>
     (\<exists>st1. c (st\<lparr>cur_cell := k\<rparr>) = (Inr (), st1) \<and> run_cells (Suc k) cs st1 = (Completed, st'))"
  by (cases "c (st\<lparr>cur_cell := k\<rparr>)") (auto split: sum.splits)

lemma run_cells_Nil_eq: "run_cells k [] st = (out, st') \<longleftrightarrow> out = Completed \<and> st' = st"
  by auto

lemmas success_simps =
  bind_py_Inr then_py_Inr return_py_eq of_result_Inr read_var_Inr heap_op_Inr assign_eq lib_call_eq
  run_cells_Completed run_cells_Nil_eq

text \<open>Recording an exception changes nothing but the record.\<close>

lemma record_raise_fields [simp]:
  "heap (record_raise r st) = heap st"
  "stats (record_raise r st) = stats st"
  "stats_unpack (record_raise r st) = stats_unpack st"
  "cur_cell (record_raise r st) = cur_cell st"
  by (cases r; simp add: record_raise_def)+

lemma read_var_eq:
  "read_var var st = (r, st') \<longleftrightarrow>
     r = (case var st of None \<Rightarrow> Inl NameError | Some x \<Rightarrow> Inr x) \<and> st' = record_raise r st"
  by (auto simp: read_var_def of_result_def)

lemma heap_op_eq:
  "heap_op f st = (r, st') \<longleftrightarrow>
     (\<exists>h'. f (heap st) = (r, h') \<and> st' = record_raise r (st\<lparr>heap := h'\<rparr>))"
  by (cases "f (heap st)") (auto simp: heap_op_def of_result_def)

subsection \<open>What the cells of the centrality step do when they return\<close>

lemma node_attr_set_node_attributes:
  assumes "n \<in> fst ` set (nodes G)" and "map_of vals n = Some s"
  shows "node_attr (set_node_attributes G vals name) n name = Some (AFloat s)"
proof -
  let ?f = "\<lambda>(n, d). case map_of vals n of None \<Rightarrow> (n, d)
                      | Some v \<Rightarrow> (n, AList.update name (AFloat v) d)"
  have "\<exists>d. map_of (map ?f xs) n = Some (AList.update name (AFloat s) d)"
    if "n \<in> fst ` set xs" for xs :: "(node \<times> attrs) list"
    using that assms(2) by (induction xs) (auto split: option.splits)
  from this [OF assms(1)] obtain d where
    "map_of (map ?f (nodes G)) n = Some (AList.update name (AFloat s) d)" by blast
  then show ?thesis
    by (simp add: node_attr_def set_node_attributes_def update_conv')
qed

lemma nodes_set_node_attributes:
  "map fst (nodes (set_node_attributes G vals name)) = map fst (nodes G)"
  by (auto simp: set_node_attributes_def split: prod.splits option.splits)

lemma cell_centrality_Inr:
  assumes "cell_centrality E st = (Inr u, st')" and "hk_graph st = Some G"
  shows "\<exists>D scores evs. get_digraph E G = Inr D \<and>
           betweenness_centrality E D ''length'' = Inr scores \<and>
           hk_graph st' = Some G \<and> bc st' = Some scores \<and>
           calls st' = calls st @ evs \<and>
           map ev_request evs = [GetDigraph G, BetweennessCentrality D ''length'']"
  using assms unfolding cell_centrality_def lib_defs
  by (auto simp: success_simps split: prod.splits)

lemma mark_max_node_state: "mark_max_node hit miss vs st = (Inr xs, st') \<Longrightarrow> st' = st"
  by (cases "max_node st") (auto simp: mark_max_node_def run_defs split: if_splits)

lemma cell_highlight_Inr:
  assumes "cell_highlight E st = (Inr u, st')"
  shows "hk_graph st' = hk_graph st \<and> bc st' = bc st \<and>
         (\<exists>ev. calls st' = calls st @ [ev])"
  using assms unfolding cell_highlight_def lib_defs
  by (auto simp: success_simps split: prod.splits dest!: mark_max_node_state)

lemma cell_attach_bc_Inr:
  assumes "cell_attach_bc E st = (Inr u, st')" and "hk_graph st = Some G" and "bc st = Some scores"
  shows "hk_graph st' = Some (set_node_attributes G scores ''bc'') \<and> bc st' = Some scores \<and>
         (\<exists>ev evs. calls st' = calls st @ ev # evs
                   \<and> ev_request ev = SetNodeAttributes G scores ''bc'')"
  using assms unfolding cell_attach_bc_def lib_defs
  by (auto simp: success_simps split: prod.splits)

subsection \<open>Which dictionaries the heap operations change\<close>

declare unpack_loop.simps [simp del]

lemma setitem_frame:
  assumes "setitem t k v h = (r, h')"
  shows "length h' = length h \<and> (\<forall>a. t \<noteq> VRef a \<longrightarrow> h' ! a = h ! a)"
  using assms by (cases t) (auto simp: setitem_def split: if_splits)

lemma delitem_frame:
  assumes "delitem t k h = (r, h')"
  shows "length h' = length h \<and> (\<forall>a. t \<noteq> VRef a \<longrightarrow> h' ! a = h ! a)"
  using assms by (cases t) (auto simp: delitem_def split: if_splits option.splits)

lemma subscript_heap: "subscript x k h = (r, h') \<Longrightarrow> h' = h"
  by (cases x) (auto simp: subscript_def split: if_splits option.splits)

lemma unpack_loop_frame:
  "unpack_loop sfx t inner n pos h = (r, h')
   \<Longrightarrow> length h' = length h \<and> (\<forall>a. t \<noteq> VRef a \<longrightarrow> h' ! a = h ! a)"
proof (induction sfx t inner n pos h rule: unpack_loop.induct)
  case (1 sfx t inner n pos h)
  show ?case
  proof (cases "inner < length h \<and> length (h ! inner) = n \<and> pos < n")
    case False
    with "1.prems" show ?thesis
      by (auto simp: unpack_loop.simps [of sfx t inner n pos h] split: if_splits)
  next
    case True
    obtain k v where kv: "h ! inner ! pos = (k, v)" by (cases "h ! inner ! pos")
    obtain r1 h1 where s1: "setitem t (KStr (format_key k sfx)) v h = (r1, h1)"
      by (cases "setitem t (KStr (format_key k sfx)) v h")
    note f1 = setitem_frame [OF s1]
    show ?thesis
    proof (cases r1)
      case (Inl e)
      with "1.prems" True kv s1 have "h' = h1"
        by (simp add: unpack_loop.simps [of sfx t inner n pos h])
      with f1 show ?thesis by simp
    next
      case (Inr u)
      with "1.prems" True kv s1 have rest: "unpack_loop sfx t inner n (Suc pos) h1 = (r, h')"
        by (simp add: unpack_loop.simps [of sfx t inner n pos h])
      from True have "inner < length h" "\<not> length (h ! inner) \<noteq> n" "\<not> n \<le> pos" by simp_all
      from "1.IH" [OF this kv [symmetric] s1 [symmetric] Inr rest] f1
      show ?thesis by simp
    qed
  qed
qed


lemma unpack_items_frame:
  assumes "unpack_items sfx t x h = (r, h')"
  shows "length h' = length h \<and> (\<forall>a. t \<noteq> VRef a \<longrightarrow> h' ! a = h ! a)"
  using assms unpack_loop_frame [of sfx t _ _ 0 h r h']
  by (cases x) (auto simp: unpack_items_def split: if_splits)

lemma deepcopy_frame:
  "deepcopy d v memo h = (r, memo', h')
     \<Longrightarrow> length h \<le> length h' \<and> (\<forall>a < length h. h' ! a = h ! a)"
  "deepcopy_items d y xs memo h = (r', memo', h')
     \<Longrightarrow> length h \<le> length h' \<and> (\<forall>a < length h. a \<noteq> y \<longrightarrow> h' ! a = h ! a)"
proof (induction d v memo h and d y xs memo h arbitrary: r memo' h' and r' memo' h'
       rule: deepcopy_deepcopy_items.induct)
  case (1 depth x memo h)
  show ?case
  proof (cases "map_of memo x")
    case (Some y)
    with "1.prems" show ?thesis by simp
  next
    case None
    show ?thesis
    proof (cases depth)
      case 0
      with None "1.prems" show ?thesis by simp
    next
      case (Suc d)
      show ?thesis
      proof (cases "x < length h")
        case False
        with None Suc "1.prems" show ?thesis by simp
      next
        case True
        obtain r1 m1 h1 where it:
          "deepcopy_items d (length h) (h ! x) ((x, length h) # memo) (h @ [[]]) = (r1, m1, h1)"
          by (cases "deepcopy_items d (length h) (h ! x) ((x, length h) # memo) (h @ [[]])") auto
        from "1.IH" [OF None Suc True it]
        have f: "length (h @ [[]]) \<le> length h1"
          "\<forall>a < length (h @ [[]]). a \<noteq> length h \<longrightarrow> h1 ! a = (h @ [[]]) ! a"
          by simp_all
        from None Suc True it "1.prems" have "h' = h1" by (auto split: sum.splits)
        with f show ?thesis by (auto simp: nth_append)
      qed
    qed
  qed
next
  case (7 depth y memo h)
  then show ?case by simp
next
  case (8 depth y k v rest memo h)
  obtain r1 m1 h1 where v1: "deepcopy depth v memo h = (r1, m1, h1)"
    by (cases "deepcopy depth v memo h") auto
  from "8.IH"(1) [OF v1] have f1: "length h \<le> length h1" "\<forall>a < length h. h1 ! a = h ! a"
    by simp_all
  show ?case
  proof (cases r1)
    case (Inl e)
    with "8.prems" v1 have "h' = h1" by simp
    with f1 show ?thesis by simp
  next
    case (Inr v')
    let ?h2 = "h1[y := AList.update k v' (h1 ! y)]"
    from "8.prems" v1 Inr have rest: "deepcopy_items depth y rest m1 ?h2 = (r', memo', h')"
      by simp
    from "8.IH"(2) [OF v1 [symmetric] Inr refl rest]
    have f2: "length ?h2 \<le> length h'" "\<forall>a < length ?h2. a \<noteq> y \<longrightarrow> h' ! a = ?h2 ! a"
      by simp_all
    with f1 show ?thesis by auto
  qed
qed simp_all

subsection \<open>The copy is new and the loops write only to it\<close>

lemma deepcopy_fresh:
  assumes "deepcopy d v [] h = (Inr c, memo', h')"
  shows "\<forall>u. c = VRef u \<longrightarrow> u = length h \<and> u < length h'"
proof (cases v)
  case (VRef x)
  show ?thesis
  proof (cases d)
    case 0
    with VRef assms show ?thesis by simp
  next
    case (Suc d')
    show ?thesis
    proof (cases "x < length h")
      case False
      with VRef Suc assms show ?thesis by simp
    next
      case True
      obtain r1 m1 h1 where it:
        "deepcopy_items d' (length h) (h ! x) [(x, length h)] (h @ [[]]) = (r1, m1, h1)"
        by (cases "deepcopy_items d' (length h) (h ! x) [(x, length h)] (h @ [[]])") auto
      from deepcopy_frame(2) [OF it] have "length h < length h1" by simp
      moreover from VRef Suc True it assms have "c = VRef (length h) \<and> h' = h1"
        by (auto split: sum.splits)
      ultimately show ?thesis by simp
    qed
  qed
qed (use assms in auto)

lemma py_deepcopy_frame:
  assumes "py_deepcopy limit x h = (r, h')"
  shows "length h \<le> length h' \<and> (\<forall>a < length h. h' ! a = h ! a)
         \<and> (\<forall>c u. r = Inr c \<and> c = VRef u \<longrightarrow> length h \<le> u \<and> u < length h')"
proof -
  obtain memo' where dc: "deepcopy limit x [] h = (r, memo', h')"
    using assms by (cases "deepcopy limit x [] h") (auto simp: py_deepcopy_def)
  from deepcopy_frame(1) [OF dc] deepcopy_fresh [of limit x h _ memo' h'] dc
  show ?thesis by auto
qed

lemma writes_copy_only_refl: "writes_copy_only st st"
  by (simp add: writes_copy_only_def)

lemma writes_copy_only_trans:
  "writes_copy_only st st1 \<Longrightarrow> writes_copy_only st1 st' \<Longrightarrow> writes_copy_only st st'"
  by (auto simp: writes_copy_only_def)

lemma bind_py_cases:
  assumes "bind_py m f st = (r, st')"
  obtains (raise) e where "m st = (Inl e, st')" and "r = Inl e"
    | (return) x st1 where "m st = (Inr x, st1)" and "f x st1 = (r, st')"
proof (cases "m st")
  case (Pair r1 st1)
  show ?thesis
  proof (cases r1)
    case (Inl e)
    with Pair assms have "m st = (Inl e, st')" "r = Inl e" by (simp_all add: bind_py_def)
    then show ?thesis by (rule raise)
  next
    case (Inr x)
    with Pair assms have "m st = (Inr x, st1)" "f x st1 = (r, st')" by (simp_all add: bind_py_def)
    then show ?thesis by (rule return)
  qed
qed

lemma then_py_writes_copy_only:
  assumes m: "\<And>st r st'. m st = (r, st') \<Longrightarrow> writes_copy_only st st'"
    and n: "\<And>st r st'. n st = (r, st') \<Longrightarrow> writes_copy_only st st'"
    and run: "then_py m n st = (r, st')"
  shows "writes_copy_only st st'"
  using run unfolding then_py_def
proof (cases rule: bind_py_cases)
  case (raise e)
  then show ?thesis using m by blast
next
  case (return x st1)
  then show ?thesis using m n writes_copy_only_trans by blast
qed

lemma heap_op_writes_copy_only:
  assumes run: "heap_op f st = (r, st')"
    and f: "\<And>r h'. f (heap st) = (r, h')
              \<Longrightarrow> length h' = length (heap st) \<and> (\<forall>a. t \<noteq> VRef a \<longrightarrow> h' ! a = heap st ! a)"
    and t: "stats_unpack st = Some t"
  shows "writes_copy_only st st'"
proof -
  from run obtain h' where fh: "f (heap st) = (r, h')" and st': "st' = record_raise r (st\<lparr>heap := h'\<rparr>)"
    unfolding heap_op_eq by blast
  from f [OF fh] t st' show ?thesis by (auto simp: writes_copy_only_def)
qed

lemma read_var_writes_copy_only:
  assumes "read_var var st = (r, st')"
  shows "writes_copy_only st st'"
  using assms unfolding read_var_eq by (simp add: writes_copy_only_def)

lemma unpack_for_writes_copy_only:
  assumes "unpack_for nested sfx st = (r, st')"
  shows "writes_copy_only st st'"
  using assms unfolding unpack_for_def
proof (cases rule: bind_py_cases)
  case (raise e)
  from raise(1) show ?thesis by (rule read_var_writes_copy_only)
next
  case (return d st1)
  then have d: "stats_unpack st = Some d" and st1: "st1 = st"
    by (simp_all add: read_var_Inr)
  from return(2) show ?thesis unfolding st1
  proof (cases rule: bind_py_cases)
    case (raise e)
    from raise(1) show ?thesis
      by (rule heap_op_writes_copy_only [where t = d]) (auto dest: subscript_heap simp: d)
  next
    case (return x st2)
    then have st2: "st2 = st"
      by (auto simp: heap_op_Inr dest: subscript_heap)
    from return(2) show ?thesis unfolding st2
    proof (cases rule: bind_py_cases)
      case (raise e)
      from raise(1) show ?thesis by (rule read_var_writes_copy_only)
    next
      case (return target st3)
      then have t: "target = d" and st3: "st3 = st"
        using d by (simp_all add: read_var_Inr)
      from return(2) show ?thesis unfolding st3 t
        by (rule heap_op_writes_copy_only [where t = d]) (auto dest: unpack_items_frame simp: d)
    qed
  qed
qed

lemma del_stats_unpack_writes_copy_only:
  assumes "del_stats_unpack nested st = (r, st')"
  shows "writes_copy_only st st'"
  using assms unfolding del_stats_unpack_def
proof (cases rule: bind_py_cases)
  case (raise e)
  from raise(1) show ?thesis by (rule read_var_writes_copy_only)
next
  case (return d st1)
  then have d: "stats_unpack st = Some d" and st1: "st1 = st"
    by (simp_all add: read_var_Inr)
  from return(2) show ?thesis unfolding st1
    by (rule heap_op_writes_copy_only [where t = d]) (auto dest: delitem_frame simp: d)
qed

lemma del_stats_unpack_Inr:
  assumes "del_stats_unpack nested st = (Inr u, st')"
  shows "\<exists>a. stats_unpack st = Some (VRef a) \<and> a < length (heap st)
             \<and> heap st' ! a = AList.delete (KStr nested) (heap st ! a)"
proof -
  from assms obtain d h' where d: "stats_unpack st = Some d"
    and del: "delitem d (KStr nested) (heap st) = (Inr u, h')" and st': "st' = st\<lparr>heap := h'\<rparr>"
    by (auto simp: del_stats_unpack_def success_simps)
  from del show ?thesis
    by (cases d) (auto simp: d st' delitem_def split: if_splits option.splits)
qed

lemma then_py_assign: "then_py (assign upd) n st = n (upd st)"
  by (simp add: then_py_def bind_py_def assign_def)

lemma unpack_tail_writes_copy_only:
  assumes "then_py (unpack_for ''streets_per_node_counts'' ''way_int_count'')
          (then_py (unpack_for ''streets_per_node_proportions'' ''way_int_prop'')
          (then_py (del_stats_unpack ''streets_per_node_counts'')
                   (del_stats_unpack ''streets_per_node_proportions''))) st = (r, st')"
  shows "writes_copy_only st st'"
  using assms
  by (elim then_py_writes_copy_only [rotated 2])
     (erule unpack_for_writes_copy_only del_stats_unpack_writes_copy_only)+

lemma unpack_tail_Inr:
  assumes "then_py (unpack_for ''streets_per_node_counts'' ''way_int_count'')
          (then_py (unpack_for ''streets_per_node_proportions'' ''way_int_prop'')
          (then_py (del_stats_unpack ''streets_per_node_counts'')
                   (del_stats_unpack ''streets_per_node_proportions''))) st = (Inr u, st')"
  shows "\<exists>a. stats_unpack st = Some (VRef a) \<and> a < length (heap st)
           \<and> map_of (heap st' ! a) (KStr ''streets_per_node_counts'') = None
           \<and> map_of (heap st' ! a) (KStr ''streets_per_node_proportions'') = None"
proof -
  from assms obtain x1 x2 x3 s1 s2 s3 where
    u1: "unpack_for ''streets_per_node_counts'' ''way_int_count'' st = (Inr x1, s1)"
    and u2: "unpack_for ''streets_per_node_proportions'' ''way_int_prop'' s1 = (Inr x2, s2)"
    and d1: "del_stats_unpack ''streets_per_node_counts'' s2 = (Inr x3, s3)"
    and d2: "del_stats_unpack ''streets_per_node_proportions'' s3 = (Inr u, st')"
    unfolding then_py_Inr by blast
  note w1 = unpack_for_writes_copy_only [OF u1]
  note w2 = unpack_for_writes_copy_only [OF u2]
  note w3 = del_stats_unpack_writes_copy_only [OF d1]
  from del_stats_unpack_Inr [OF d1] obtain a where
    a: "stats_unpack s2 = Some (VRef a)" "a < length (heap s2)"
    and h3: "heap s3 ! a = AList.delete (KStr ''streets_per_node_counts'') (heap s2 ! a)"
    by blast
  from del_stats_unpack_Inr [OF d2] w3 a obtain
    h4: "heap st' ! a = AList.delete (KStr ''streets_per_node_proportions'') (heap s3 ! a)"
    by (auto simp: writes_copy_only_def)
  from w1 w2 a have "stats_unpack st = Some (VRef a)" "a < length (heap st)"
    by (simp_all add: writes_copy_only_def)
  moreover from h3 h4 have "map_of (heap st' ! a) (KStr ''streets_per_node_counts'') = None"
    "map_of (heap st' ! a) (KStr ''streets_per_node_proportions'') = None"
    by (simp_all add: delete_conv)
  ultimately show ?thesis by blast
qed

text \<open>
  Claim C4. The notebook has no error handling of its own. In a run of any cells of the
  notebook, in any order and from any kernel state, a library call that raises (as any
  other operation that raises) is the last thing the run does, and the run halts at the
  cell that made the call with the very exception the library raised: nothing is caught,
  retried or recovered. Conversely a run halts only with the exception that was raised
  last, at the cell that raised it.
\<close>

theorem library_failure_halts_run:
  assumes "set cs \<subseteq> set (notebook E)" and "run_cells k cs st0 = (out, st)"
  shows "\<exists>evs. calls st = calls st0 @ evs \<and>
           (\<forall>ev \<in> set evs. k \<le> ev_cell ev \<and> ev_cell ev < k + length cs) \<and>
           (\<forall>i e. i < length evs \<and> ev_raised (evs ! i) = Some e
                  \<longrightarrow> Suc i = length evs \<and> out = Halted (ev_cell (evs ! i)) e) \<and>
           (\<forall>c e. out = Halted c e
                  \<longrightarrow> evs \<noteq> [] \<and> ev_raised (last evs) = Some e \<and> ev_cell (last evs) = c)"
proof -
  from assms(1) have "\<forall>c \<in> set cs. propagates c"
    by (auto intro: propagates_notebook)
  then show ?thesis using assms(2) by (rule run_cells_propagated)
qed

theorem library_failure_halts_run_witness:
  "fst (run_notebook timeout_env) = Halted 2 (LibraryError ''timeout'')
   \<and> map ev_raised (calls (snd (run_notebook timeout_env)))
       = [None, None, None, None, Some (LibraryError ''timeout'')]
   \<and> map ev_cell (calls (snd (run_notebook timeout_env))) = [1, 1, 1, 1, 2]
   \<and> hk_graph (snd (run_notebook timeout_env)) = None"
  using library_failure_halts_run [of "notebook timeout_env" timeout_env 0 fresh_kernel
      "fst (run_notebook timeout_env)" "snd (run_notebook timeout_env)"]
  by (simp add: run_notebook_def notebook_def cell_install_def cell_imports_def
        cell_graph_from_point_def lib_defs run_defs timeout_env_def example_env_def
        fresh_kernel_def)

text \<open>
  Claim C1. When the centrality cell, the highlight cell and the attachment cell have
  run to completion on a graph \<open>G\<close> bound to \<^verbatim>\<open>hk_graph\<close>, the first request was
  \<^verbatim>\<open>ox.get_digraph\<close> on \<open>G\<close>, the second was \<^verbatim>\<open>nx.betweenness_centrality\<close> on the digraph
  it returned, with weight \<^verbatim>\<open>"length"\<close>, and a later request attached the mapping that
  came back to \<open>G\<close> under the name \<^verbatim>\<open>"bc"\<close>. Afterwards \<^verbatim>\<open>hk_graph\<close> has the same nodes,
  and every node with an entry in the mapping carries that entry as its attribute
  \<^verbatim>\<open>"bc"\<close>.
\<close>

theorem centrality_attached_as_bc:
  assumes "hk_graph st0 = Some G"
    and "run_cells k [cell_centrality E, cell_highlight E, cell_attach_bc E] st0 = (Completed, st)"
  shows "\<exists>D scores G' shown rest.
           get_digraph E G = Inr D \<and>
           betweenness_centrality E D ''length'' = Inr scores \<and>
           bc st = Some scores \<and>
           hk_graph st = Some G' \<and>
           map fst (nodes G') = map fst (nodes G) \<and>
           (\<forall>n s. n \<in> fst ` set (nodes G) \<and> map_of scores n = Some s
                  \<longrightarrow> node_attr G' n ''bc'' = Some (AFloat s)) \<and>
           map ev_request (drop (length (calls st0)) (calls st)) =
             [GetDigraph G, BetweennessCentrality D ''length'', shown,
              SetNodeAttributes G scores ''bc''] @ rest"
proof -
  from assms(2) obtain st1 st2 where
    c1: "cell_centrality E (st0\<lparr>cur_cell := k\<rparr>) = (Inr (), st1)"
    and c2: "cell_highlight E (st1\<lparr>cur_cell := Suc k\<rparr>) = (Inr (), st2)"
    and c3: "cell_attach_bc E (st2\<lparr>cur_cell := Suc (Suc k)\<rparr>) = (Inr (), st)"
    by (auto simp: run_cells_Completed run_cells_Nil_eq simp del: run_cells.simps)
  from cell_centrality_Inr [OF c1, of G] assms(1) obtain D scores evs1 where
    dg: "get_digraph E G = Inr D" and sc: "betweenness_centrality E D ''length'' = Inr scores"
    and g1: "hk_graph st1 = Some G" and b1: "bc st1 = Some scores"
    and l1: "calls st1 = calls st0 @ evs1"
    and r1: "map ev_request evs1 = [GetDigraph G, BetweennessCentrality D ''length'']"
    by auto
  from cell_highlight_Inr [OF c2] g1 b1 obtain ev2 where
    g2: "hk_graph st2 = Some G" and b2: "bc st2 = Some scores"
    and l2: "calls st2 = calls st1 @ [ev2]"
    by auto
  from cell_attach_bc_Inr [OF c3, of G scores] g2 b2 obtain ev3 evs3 where
    g3: "hk_graph st = Some (set_node_attributes G scores ''bc'')" and b3: "bc st = Some scores"
    and l3: "calls st = calls st2 @ ev3 # evs3"
    and r3: "ev_request ev3 = SetNodeAttributes G scores ''bc''"
    by auto
  have "calls st = calls st0 @ (evs1 @ ev2 # ev3 # evs3)"
    using l1 l2 l3 by simp
  then have "drop (length (calls st0)) (calls st) = evs1 @ ev2 # ev3 # evs3"
    by simp
  then have "map ev_request (drop (length (calls st0)) (calls st)) =
             [GetDigraph G, BetweennessCentrality D ''length'', ev_request ev2,
              SetNodeAttributes G scores ''bc''] @ map ev_request evs3"
    using r1 r3 by simp
  with dg sc b3 g3 show ?thesis
    using node_attr_set_node_attributes [of _ G scores _ "''bc''"]
      nodes_set_node_attributes [of G scores "''bc''"]
    by blast
qed

theorem centrality_attached_as_bc_witness:
  "fst (run_cells 17 [cell_centrality example_env, cell_highlight example_env,
                      cell_attach_bc example_env]
          (fresh_kernel\<lparr>hk_graph := Some example_graph\<rparr>)) = Completed
   \<and> (\<exists>G'. hk_graph (snd (run_cells 17 [cell_centrality example_env, cell_highlight example_env,
                      cell_attach_bc example_env]
          (fresh_kernel\<lparr>hk_graph := Some example_graph\<rparr>))) = Some G'
          \<and> node_attr G' 102 ''bc'' = Some (AFloat 0.5))"
  using centrality_attached_as_bc [of "fresh_kernel\<lparr>hk_graph := Some example_graph\<rparr>"
      example_graph 17 example_env
      "snd (run_cells 17 [cell_centrality example_env, cell_highlight example_env,
                      cell_attach_bc example_env]
          (fresh_kernel\<lparr>hk_graph := Some example_graph\<rparr>))"]
  by (simp add: cell_centrality_def cell_highlight_def mark_max_node_def cell_attach_bc_def
        lib_defs run_defs example_defs py_max_def set_node_attributes_def node_attr_def no_opts_def)

subsection \<open>The boundary filter\<close>

lemma select_mask_column_eq:
  "select_mask df (column_eq df s) = filter (\<lambda>(label, row). N03_004 row = Some s) df"
  unfolding select_mask_def column_eq_def
  by (induction df) (auto split: prod.splits)

text \<open>
  Claim C5. When the cells that load, show and filter the boundary table have run to
  completion, \<^verbatim>\<open>tokyo_pre_boundary\<close> is the table that \<^verbatim>\<open>gpd.read_file\<close> returned for
  \<^verbatim>\<open>BOUNDARY_URL\<close>, and \<^verbatim>\<open>chiyoda\<close> holds exactly the rows of it whose \<^verbatim>\<open>N03_004\<close> is
  the district name: a row of the table is kept if and only if its \<^verbatim>\<open>N03_004\<close> equals
  the name, and the kept rows are rows of the table as they were, in their order.
\<close>

theorem chiyoda_filter_keeps_matching_rows:
  assumes "run_cells k [cell_read_boundary E, cell_show_boundary, cell_filter_chiyoda] st0
             = (Completed, st)"
  shows "\<exists>url df kept.
           BOUNDARY_URL st = Some url \<and> read_file E url = Inr df \<and>
           tokyo_pre_boundary st = Some df \<and> chiyoda st = Some kept \<and>
           (\<forall>row \<in> set df. row \<in> set kept \<longleftrightarrow> N03_004 (snd row) = Some district_name) \<and>
           subseq kept df"
proof -
  from assms have "\<exists>url df. BOUNDARY_URL st = Some url \<and> read_file E url = Inr df
      \<and> tokyo_pre_boundary st = Some df
      \<and> chiyoda st = Some (select_mask df (column_eq df district_name))"
    unfolding cell_read_boundary_def cell_show_boundary_def cell_filter_chiyoda_def lib_defs
    by (auto simp: success_simps simp del: run_cells.simps)
  then obtain url df where
    url: "BOUNDARY_URL st = Some url" and rd: "read_file E url = Inr df"
    and tb: "tokyo_pre_boundary st = Some df"
    and ch: "chiyoda st = Some (select_mask df (column_eq df district_name))"
    by blast
  let ?kept = "filter (\<lambda>(label, row). N03_004 row = Some district_name) df"
  have "\<forall>row \<in> set df. row \<in> set ?kept \<longleftrightarrow> N03_004 (snd row) = Some district_name"
    by (auto split: prod.splits)
  moreover have "subseq ?kept df" by simp
  ultimately show ?thesis using url rd tb ch by (simp add: select_mask_column_eq)
qed

theorem chiyoda_filter_keeps_matching_rows_witness:
  "fst (run_cells 4 [cell_read_boundary example_env, cell_show_boundary, cell_filter_chiyoda]
          fresh_kernel) = Completed
   \<and> chiyoda (snd (run_cells 4 [cell_read_boundary example_env, cell_show_boundary,
                                cell_filter_chiyoda] fresh_kernel))
       = Some [(0, \<lparr>N03_004 = Some district_name, geometry = [(0, 0), (1, 0), (1, 1)],
                    other_columns = [(''N03_007'', ''13101'')]\<rparr>)]"
  using chiyoda_filter_keeps_matching_rows [of 4 example_env fresh_kernel
      "snd (run_cells 4 [cell_read_boundary example_env, cell_show_boundary,
                                cell_filter_chiyoda] fresh_kernel)"]
  by (simp add: cell_read_boundary_def cell_show_boundary_def cell_filter_chiyoda_def
        lib_defs run_defs example_defs select_mask_def column_eq_def district_name_def)

subsection \<open>The exports\<close>

lemma lib_call_Inr:
  "lib_call rq r0 st = (Inr x, st') \<longleftrightarrow>
     r0 = Inr x \<and>
     st' = st\<lparr>calls := calls st @ [\<lparr>ev_cell = cur_cell st, ev_request = rq, ev_raised = None\<rparr>]\<rparr>"
  by (cases r0) (auto simp: lib_call_def raised_def)

text \<open>
  Claim C6. On a graph \<open>G\<close> bound to \<^verbatim>\<open>hk_graph\<close>, the three export cells run to completion
  exactly when the library answers all three of their calls without an exception:
  \<^verbatim>\<open>ox.save_graph_geopackage\<close> of \<open>G\<close> to \<^verbatim>\<open>./data-output/hk_graph.gpkg\<close>,
  \<^verbatim>\<open>ox.save_graph_shapefile\<close> of \<open>G\<close> to the directory \<^verbatim>\<open>./data-output/hk_graph/\<close>, and
  \<^verbatim>\<open>ox.plot_graph\<close> of \<open>G\<close> with \<^verbatim>\<open>save=True\<close> and the file \<^verbatim>\<open>./hk_graph.svg\<close>. The state
  then differs from the one before only in the three records of these calls, one for
  each cell, and in \<^verbatim>\<open>fig\<close> and \<^verbatim>\<open>ax\<close>, which hold what the plot returned; \<^verbatim>\<open>hk_graph\<close>
  is still \<open>G\<close>. The three paths are the same for every graph, environment and kernel
  state, and each is relative.
\<close>

theorem export_requests:
  assumes "hk_graph st0 = Some G"
  shows "(run_cells k [cell_save_geopackage E, cell_save_shapefile E, cell_save_svg E] st0
            = (Completed, st)
          \<longleftrightarrow>
          save_graph_geopackage E G ''./data-output/hk_graph.gpkg'' = Inr () \<and>
          save_graph_shapefile E G ''./data-output/hk_graph/'' = Inr () \<and>
          (\<exists>f a. plot_graph E G (no_opts\<lparr>show' := Some False, save := Some True,
                                          close' := Some True,
                                          filepath := Some ''./hk_graph.svg''\<rparr>) = Inr (f, a) \<and>
                 st = st0\<lparr>cur_cell := Suc (Suc k),
                          calls := calls st0 @
                            [\<lparr>ev_cell = k,
                              ev_request = SaveGraphGeopackage G ''./data-output/hk_graph.gpkg'',
                              ev_raised = None\<rparr>,
                             \<lparr>ev_cell = Suc k,
                              ev_request = SaveGraphShapefile G ''./data-output/hk_graph/'',
                              ev_raised = None\<rparr>,
                             \<lparr>ev_cell = Suc (Suc k),
                              ev_request = PlotGraph G
                                (no_opts\<lparr>show' := Some False, save := Some True,
                                         close' := Some True,
                                         filepath := Some ''./hk_graph.svg''\<rparr>),
                              ev_raised = None\<rparr>],
                          fig := Some f, ax := Some a\<rparr>))
         \<and> (run_cells k [cell_save_geopackage E, cell_save_shapefile E, cell_save_svg E] st0
               = (Completed, st)
             \<longrightarrow> hk_graph st = Some G \<and>
                 map ev_request (drop (length (calls st0)) (calls st)) =
                   [SaveGraphGeopackage G ''./data-output/hk_graph.gpkg'',
                    SaveGraphShapefile G ''./data-output/hk_graph/'',
                    PlotGraph G (no_opts\<lparr>show' := Some False, save := Some True,
                                         close' := Some True,
                                         filepath := Some ''./hk_graph.svg''\<rparr>)])
         \<and> is_relative ''./data-output/hk_graph.gpkg'' \<and> suffix ''.gpkg'' ''./data-output/hk_graph.gpkg''
         \<and> is_relative ''./data-output/hk_graph/'' \<and> suffix ''/'' ''./data-output/hk_graph/''
         \<and> is_relative ''./hk_graph.svg'' \<and> suffix ''.svg'' ''./hk_graph.svg''"
proof -
  let ?run = "run_cells k [cell_save_geopackage E, cell_save_shapefile E, cell_save_svg E] st0"
  let ?opts = "no_opts\<lparr>show' := Some False, save := Some True, close' := Some True,
                       filepath := Some ''./hk_graph.svg''\<rparr> :: 'a plot_opts"
  let ?evs = "[\<lparr>ev_cell = k,
                 ev_request = SaveGraphGeopackage G ''./data-output/hk_graph.gpkg'',
                 ev_raised = None\<rparr>,
               \<lparr>ev_cell = Suc k,
                 ev_request = SaveGraphShapefile G ''./data-output/hk_graph/'',
                 ev_raised = None\<rparr>,
               \<lparr>ev_cell = Suc (Suc k), ev_request = PlotGraph G ?opts, ev_raised = None\<rparr>]"
  let ?ok = "save_graph_geopackage E G ''./data-output/hk_graph.gpkg'' = Inr () \<and>
          save_graph_shapefile E G ''./data-output/hk_graph/'' = Inr () \<and>
          (\<exists>f a. plot_graph E G ?opts = Inr (f, a) \<and>
                 st = st0\<lparr>cur_cell := Suc (Suc k), calls := calls st0 @ ?evs,
                          fig := Some f, ax := Some a\<rparr>)"
  have forth: "?ok" if "?run = (Completed, st)"
    using that assms
    unfolding cell_save_geopackage_def cell_save_shapefile_def cell_save_svg_def lib_defs
    by (auto simp: bind_py_Inr read_var_Inr assign_eq lib_call_Inr run_cells_Completed
          run_cells_Nil_eq simp del: run_cells.simps split: prod.splits)
  have backward: "?run = (Completed, st)" if "?ok"
    using that assms
    unfolding cell_save_geopackage_def cell_save_shapefile_def cell_save_svg_def lib_defs
    by (auto simp: run_defs)
  have reqs: "hk_graph st = Some G \<and> map ev_request (drop (length (calls st0)) (calls st)) =
                   [SaveGraphGeopackage G ''./data-output/hk_graph.gpkg'',
                    SaveGraphShapefile G ''./data-output/hk_graph/'',
                    PlotGraph G ?opts]" if "?run = (Completed, st)"
    using forth [OF that] assms by auto
  have "suffix ''.gpkg'' (''./data-output/hk_graph'' @ ''.gpkg'')"
    "suffix ''/'' (''./data-output/hk_graph'' @ ''/'')" "suffix ''.svg'' (''./hk_graph'' @ ''.svg'')"
    by (rule suffix_appendI, rule suffix_order.refl)+
  then have lits: "is_relative ''./data-output/hk_graph.gpkg'' \<and> suffix ''.gpkg'' ''./data-output/hk_graph.gpkg''
         \<and> is_relative ''./data-output/hk_graph/'' \<and> suffix ''/'' ''./data-output/hk_graph/''
         \<and> is_relative ''./hk_graph.svg'' \<and> suffix ''.svg'' ''./hk_graph.svg''"
    by (simp add: is_relative_def)
  from forth backward have "?run = (Completed, st) \<longleftrightarrow> ?ok" by blast
  with reqs lits show ?thesis by blast
qed

theorem export_requests_witness:
  "fst (run_cells 20 [cell_save_geopackage example_env, cell_save_shapefile example_env,
                      cell_save_svg example_env]
          (fresh_kernel\<lparr>hk_graph := Some example_graph\<rparr>)) = Completed
   \<and> map ev_request (calls (snd (run_cells 20 [cell_save_geopackage example_env,
                      cell_save_shapefile example_env, cell_save_svg example_env]
          (fresh_kernel\<lparr>hk_graph := Some example_graph\<rparr>))))
       = [SaveGraphGeopackage example_graph ''./data-output/hk_graph.gpkg'',
          SaveGraphShapefile example_graph ''./data-output/hk_graph/'',
          PlotGraph example_graph
            (no_opts\<lparr>show' := Some False, save := Some True, close' := Some True,
                     filepath := Some ''./hk_graph.svg''\<rparr>)]
   \<and> save_graph_geopackage example_env example_graph ''./data-output/hk_graph.gpkg'' = Inr ()
   \<and> save_graph_shapefile example_env example_graph ''./data-output/hk_graph/'' = Inr ()
   \<and> fig (snd (run_cells 20 [cell_save_geopackage example_env,
                      cell_save_shapefile example_env, cell_save_svg example_env]
          (fresh_kernel\<lparr>hk_graph := Some example_graph\<rparr>))) = Some ()
   \<and> hk_graph (snd (run_cells 20 [cell_save_geopackage example_env,
                      cell_save_shapefile example_env, cell_save_svg example_env]
          (fresh_kernel\<lparr>hk_graph := Some example_graph\<rparr>))) = Some example_graph"
  using export_requests [of "fresh_kernel\<lparr>hk_graph := Some example_graph\<rparr>"
      example_graph 20 example_env
      "snd (run_cells 20 [cell_save_geopackage example_env,
                      cell_save_shapefile example_env, cell_save_svg example_env]
          (fresh_kernel\<lparr>hk_graph := Some example_graph\<rparr>))"]
  by (simp add: cell_save_geopackage_def cell_save_shapefile_def cell_save_svg_def
        lib_defs run_defs example_env_def fresh_kernel_def)

subsection \<open>The highlight lists\<close>

text \<open>
  Claim C9. After the highlight cell, whether or not its plot succeeded, \<^verbatim>\<open>nc\<close> and \<^verbatim>\<open>ns\<close>
  are lists with one entry for every node of \<^verbatim>\<open>hk_graph\<close>, in the order of the nodes. The
  entry of a node is \<^verbatim>\<open>"r"\<close>, respectively 80, if and only if the node is \<^verbatim>\<open>max_node\<close>, and
  it is \<^verbatim>\<open>"w"\<close>, respectively 5, for every other node.
\<close>

theorem highlight_lists_mark_max_node:
  assumes "hk_graph st0 = Some G" and "max_node st0 = Some m"
    and "cell_highlight E st0 = (r, st)"
  shows "\<exists>colors sizes.
           nc st = Some (ColorList colors) \<and> ns st = Some sizes \<and>
           length colors = length (nodes G) \<and> length sizes = length (nodes G) \<and>
           (\<forall>i < length (nodes G).
              (colors ! i = ''r'' \<longleftrightarrow> fst (nodes G ! i) = m) \<and>
              (fst (nodes G ! i) \<noteq> m \<longrightarrow> colors ! i = ''w'') \<and>
              (sizes ! i = 80 \<longleftrightarrow> fst (nodes G ! i) = m) \<and>
              (fst (nodes G ! i) \<noteq> m \<longrightarrow> sizes ! i = 5))"
proof -
  let ?colors = "map (\<lambda>node. if node = m then ''r'' else ''w'') (map fst (nodes G))"
  let ?sizes = "map (\<lambda>node. if node = m then 80 else (5 :: int)) (map fst (nodes G))"
  from assms have "nc st = Some (ColorList ?colors) \<and> ns st = Some ?sizes"
    unfolding cell_highlight_def mark_max_node_def lib_defs
    by (auto simp: run_defs split: prod.splits sum.splits if_splits)
  then show ?thesis by (intro exI [of _ ?colors] exI [of _ ?sizes]) simp
qed

theorem highlight_lists_mark_max_node_witness:
  "nc (snd (cell_highlight example_env
              (fresh_kernel\<lparr>hk_graph := Some example_graph, max_node := Some 102\<rparr>)))
     = Some (ColorList [''w'', ''r'', ''w''])
   \<and> ns (snd (cell_highlight example_env
              (fresh_kernel\<lparr>hk_graph := Some example_graph, max_node := Some 102\<rparr>)))
     = Some [5, 80, 5]"
  using highlight_lists_mark_max_node [of
      "fresh_kernel\<lparr>hk_graph := Some example_graph, max_node := Some 102\<rparr>"
      example_graph 102 example_env
      "fst (cell_highlight example_env
              (fresh_kernel\<lparr>hk_graph := Some example_graph, max_node := Some 102\<rparr>))"
      "snd (cell_highlight example_env
              (fresh_kernel\<lparr>hk_graph := Some example_graph, max_node := Some 102\<rparr>))"]
  by (simp add: cell_highlight_def mark_max_node_def lib_defs run_defs example_defs)

subsection \<open>The statistics dictionary is left as it was\<close>

text \<open>
  Claim C10. Building \<^verbatim>\<open>stats_unpack\<close> (the deep copy, the two unpacking loops and the two
  \<^verbatim>\<open>del\<close> statements), whatever its outcome, leaves \<^verbatim>\<open>stats\<close> bound as it was and leaves
  every dictionary that existed before as it was: the statistics dictionary and the two
  nested dictionaries keep all their keys and values. When it returns, \<^verbatim>\<open>stats_unpack\<close>
  is a dictionary allocated by the copy, and it has neither of the two nested keys.
\<close>

theorem stats_unpack_leaves_stats_unchanged:
  assumes "build_stats_unpack E st0 = (r, st)"
  shows "stats st = stats st0
       \<and> length (heap st0) \<le> length (heap st)
       \<and> (\<forall>a < length (heap st0). heap st ! a = heap st0 ! a)
       \<and> (r = Inr () \<longrightarrow>
            (\<exists>u. stats_unpack st = Some (VRef u) \<and> length (heap st0) \<le> u \<and> u < length (heap st)
               \<and> map_of (heap st ! u) (KStr ''streets_per_node_counts'') = None
               \<and> map_of (heap st ! u) (KStr ''streets_per_node_proportions'') = None))"
  using assms unfolding build_stats_unpack_def then_py_def [of "py_import E ''copy''"]
proof (cases rule: bind_py_cases)
  case (raise e)
  then show ?thesis by (auto simp: py_import_def lib_call_def)
next
  case (return x sti)
  from return(1) have sti: "stats sti = stats st0" "heap sti = heap st0"
    by (auto simp: py_import_def lib_call_def)
  from return(2) show ?thesis
  proof (cases rule: bind_py_cases)
    case (raise e)
    then show ?thesis using sti by (auto simp: read_var_eq)
  next
    case (return d st')
    from return(1) have d: "st' = sti" by (simp add: read_var_Inr)
    from return(2) show ?thesis
    proof (cases rule: bind_py_cases)
      case (raise e)
      then obtain h1 where dc: "py_deepcopy (recursion_limit E) d (heap sti) = (Inl e, h1)"
        and st: "st = record_raise (Inl e :: exn + pyval) (sti\<lparr>heap := h1\<rparr>)"
        by (auto simp: heap_op_eq d)
      from py_deepcopy_frame [OF dc] st sti raise(2) show ?thesis by simp
    next
      case (return c st1)
      then obtain h1 where dc: "py_deepcopy (recursion_limit E) d (heap sti) = (Inr c, h1)"
        and st1: "st1 = sti\<lparr>heap := h1\<rparr>"
        by (auto simp: heap_op_Inr d)
      note fr = py_deepcopy_frame [OF dc]
      let ?st2 = "st1\<lparr>stats_unpack := Some c\<rparr>"
      from return(2) have tail:
        "then_py (unpack_for ''streets_per_node_counts'' ''way_int_count'')
        (then_py (unpack_for ''streets_per_node_proportions'' ''way_int_prop'')
        (then_py (del_stats_unpack ''streets_per_node_counts'')
                 (del_stats_unpack ''streets_per_node_proportions''))) ?st2 = (r, st)"
        by (simp only: then_py_assign)
      note w = unpack_tail_writes_copy_only [OF tail]
      have same: "heap st ! a = heap st0 ! a" if "a < length (heap st0)" for a
      proof -
        from fr that sti have "c \<noteq> VRef a" by auto
        with w have "heap st ! a = heap ?st2 ! a" by (simp add: writes_copy_only_def)
        with fr that sti st1 show ?thesis by simp
      qed
      have len: "length (heap st) = length h1"
        using w st1 by (simp add: writes_copy_only_def)
      have "\<exists>u. stats_unpack st = Some (VRef u) \<and> length (heap st0) \<le> u \<and> u < length (heap st)
               \<and> map_of (heap st ! u) (KStr ''streets_per_node_counts'') = None
               \<and> map_of (heap st ! u) (KStr ''streets_per_node_proportions'') = None"
        if ok: "r = Inr ()"
      proof -
        from unpack_tail_Inr [OF tail [unfolded ok]] obtain a where
          a: "c = VRef a" "a < length h1"
          and gone: "map_of (heap st ! a) (KStr ''streets_per_node_counts'') = None"
            "map_of (heap st ! a) (KStr ''streets_per_node_proportions'') = None"
          using st1 by auto
        from w a have "stats_unpack st = Some (VRef a)" by (simp add: writes_copy_only_def)
        moreover from fr a sti have "length (heap st0) \<le> a" by simp
        ultimately show ?thesis using a gone len by auto
      qed
      moreover have "stats st = stats st0" using w st1 sti by (simp add: writes_copy_only_def)
      moreover have "length (heap st0) \<le> length (heap st)" using len fr sti by simp
      ultimately show ?thesis using same by blast
    qed
  qed
qed

theorem stats_unpack_leaves_stats_unchanged_witness:
  "fst (build_stats_unpack example_env
          (fresh_kernel\<lparr>stats := Some (VRef 2), heap := snd (example_basic_stats [])\<rparr>)) = Inr ()
   \<and> heap (snd (build_stats_unpack example_env
          (fresh_kernel\<lparr>stats := Some (VRef 2), heap := snd (example_basic_stats [])\<rparr>)))
     = snd (example_basic_stats []) @
       [[(KStr ''n'', VInt 3), (KStr ''circuity_avg'', VNone),
         (KStr ''1way_int_count'', VInt 2), (KStr ''3way_int_count'', VInt 1),
         (KStr ''1way_int_prop'', VFloat (2 / 3)), (KStr ''3way_int_prop'', VFloat (1 / 3))],
        [(KInt 1, VInt 2), (KInt 3, VInt 1)],
        [(KInt 1, VFloat (2 / 3)), (KInt 3, VFloat (1 / 3))]]
   \<and> stats_unpack (snd (build_stats_unpack example_env
          (fresh_kernel\<lparr>stats := Some (VRef 2), heap := snd (example_basic_stats [])\<rparr>)))
     = Some (VRef 3)"
  using stats_unpack_leaves_stats_unchanged [of example_env
      "fresh_kernel\<lparr>stats := Some (VRef 2), heap := snd (example_basic_stats [])\<rparr>"
      "fst (build_stats_unpack example_env
          (fresh_kernel\<lparr>stats := Some (VRef 2), heap := snd (example_basic_stats [])\<rparr>))"
      "snd (build_stats_unpack example_env
          (fresh_kernel\<lparr>stats := Some (VRef 2), heap := snd (example_basic_stats [])\<rparr>))"]
  by (simp add: build_stats_unpack_def unpack_for_def del_stats_unpack_def lib_defs run_defs
        example_defs py_deepcopy_def subscript_def setitem_def delitem_def unpack_items_def
        unpack_loop.simps format_key_def str_int_def)

end
